theory Spec2Isabelle
  imports Main
begin

section \<open>Strings\<close>

text \<open>
  A JavaScript string is a sequence of UTF-16 code units, and \<open>length\<close> counts them.
  ASCII literals of the source are written \<open>ascii ''...''\<close>; the three Japanese literals the
  functions below compare or concatenate are given by their code units.
\<close>

type_synonym jsstring = "nat list"

definition ascii :: "string \<Rightarrow> jsstring" where
  "ascii s = map of_char s"

definition option_key :: jsstring where
  \<comment> \<open>the key \<open>U+30AA U+30D7 U+30B7 U+30E7 U+30F3\<close> of \<open>options\<close> read by the source\<close>
  "option_key = [0x30AA, 0x30D7, 0x30B7, 0x30E7, 0x30F3]"

definition spec_option_key :: jsstring where
  \<comment> \<open>the key \<open>U+9078 U+629E U+80A2 U+6587 U+5B57 U+5217\<close> under which the specification
      stores the option string\<close>
  "spec_option_key = [0x9078, 0x629E, 0x80A2, 0x6587, 0x5B57, 0x5217]"

definition sample_label :: jsstring where
  \<comment> \<open>the prefix \<open>U+30B5 U+30F3 U+30D7 U+30EB\<close> of the text placeholder\<close>
  "sample_label = [0x30B5, 0x30F3, 0x30D7, 0x30EB]"

text \<open>
  \<open>String.prototype.toLowerCase\<close>. The code units whose lower-case form is or starts with
  an ASCII letter are \<open>A\<close> to \<open>Z\<close>, the Kelvin sign \<open>U+212A\<close> and \<open>U+0130\<close> (which becomes
  \<open>i\<close> followed by \<open>U+0307\<close>). Every other code unit is copied: its lower-case form is not
  ASCII either, so no comparison with an ASCII key is affected.
\<close>

definition lower_unit :: "nat \<Rightarrow> jsstring" where
  "lower_unit c =
     (if 65 \<le> c \<and> c \<le> 90 then [c + 32]
      else if c = 0x212A then [107]
      else if c = 0x130 then [105, 0x307]
      else [c])"

definition toLowerCase :: "jsstring \<Rightarrow> jsstring" where
  "toLowerCase s = concat (map lower_unit s)"

text \<open>White space and line terminators, as removed by \<open>trim\<close> and matched by \<open>\s\<close>.\<close>

definition is_space :: "nat \<Rightarrow> bool" where
  "is_space c \<longleftrightarrow>
     (9 \<le> c \<and> c \<le> 13) \<or> c = 32 \<or> c = 0xA0 \<or> c = 0x1680 \<or> (0x2000 \<le> c \<and> c \<le> 0x200A)
     \<or> c = 0x2028 \<or> c = 0x2029 \<or> c = 0x202F \<or> c = 0x205F \<or> c = 0x3000 \<or> c = 0xFEFF"

definition trim :: "jsstring \<Rightarrow> jsstring" where
  "trim s = rev (dropWhile is_space (rev (dropWhile is_space s)))"

text \<open>\<open>s.split(',')\<close>: the pieces between commas; the empty string gives one empty piece.\<close>

fun split_comma :: "jsstring \<Rightarrow> jsstring list" where
  "split_comma [] = [[]]"
| "split_comma (c # cs) =
     (if c = 44 then [] # split_comma cs
      else (case split_comma cs of [] \<Rightarrow> [[c]] | p # ps \<Rightarrow> (c # p) # ps))"

text \<open>The decimal numeral a template literal inserts for a non-negative integer.\<close>

fun digits :: "nat \<Rightarrow> jsstring" where
  "digits n = (if n < 10 then [48 + n] else digits (n div 10) @ [48 + n mod 10])"

declare digits.simps [simp del]

section \<open>Schema data\<close>

text \<open>
  The shape of the generated schema, as the \<open>response_schema\<close> of the generation request
  types it: a table has a name, an array of fields and an integral \<open>sampleDataCount\<close>; a
  field has a name, a type name and \<open>options\<close>, an object with string values, absent
  options being the empty object, as \<open>field.options || {}\<close> makes them. The schema marks no
  member as required: \<open>table_fields\<close> is \<open>None\<close> for a table whose \<open>fields\<close> member is absent
  (or is no array), which \<open>for (const field of table.fields)\<close> cannot iterate.
\<close>

type_synonym options = "jsstring \<rightharpoonup> jsstring"

record field =
  field_name :: jsstring
  field_type :: jsstring
  field_options :: options

record table =
  table_name :: jsstring
  table_fields :: "field list option"
  sampleDataCount :: int

section \<open>Field type mapper\<close>

datatype property =
    Formatter jsstring
  | Options "jsstring list"
  | Date_formatter jsstring
  | Multiple bool
  | Currency jsstring jsstring
  | Symbol jsstring

record field_payload =
  type_code :: nat
  property :: "property option"

text \<open>
  The value of \<open>typeMap[key]\<close>. \<open>typeMap\<close> is an object literal, so besides its thirteen
  own keys a lookup finds what \<open>Object.prototype\<close> provides; of those names only
  \<open>constructor\<close> and \<open>__proto__\<close> contain no upper-case letter and can be the result of
  \<open>toLowerCase\<close>. Such a value is an object without \<open>type\<close> or \<open>property\<close>.
\<close>

datatype mapping_result =
    Undefined
  | Mapping field_payload
  | Prototype_member jsstring

definition getOptions :: "options \<Rightarrow> jsstring list" where
  "getOptions options =
     (case options option_key of
        None \<Rightarrow> []
      | Some opts \<Rightarrow>
          if opts \<noteq> [] then filter (\<lambda>name. name \<noteq> []) (map trim (split_comma opts))
          else [])"

definition typeMap :: "options \<Rightarrow> jsstring \<Rightarrow> mapping_result" where
  "typeMap options key =
     (if key = ascii ''text'' then Mapping \<lparr>type_code = 1, property = None\<rparr>
      else if key = ascii ''number'' then
        Mapping \<lparr>type_code = 2, property = Some (Formatter (ascii ''0''))\<rparr>
      else if key = ascii ''single_select'' then
        Mapping \<lparr>type_code = 3, property = Some (Options (getOptions options))\<rparr>
      else if key = ascii ''multi_select'' then
        Mapping \<lparr>type_code = 4, property = Some (Options (getOptions options))\<rparr>
      else if key = ascii ''date'' then
        Mapping \<lparr>type_code = 5, property = Some (Date_formatter (ascii ''yyyy/MM/dd''))\<rparr>
      else if key = ascii ''date_time'' then
        Mapping \<lparr>type_code = 5, property = Some (Date_formatter (ascii ''yyyy/MM/dd HH:mm''))\<rparr>
      else if key = ascii ''checkbox'' then Mapping \<lparr>type_code = 7, property = None\<rparr>
      else if key = ascii ''member'' then
        Mapping \<lparr>type_code = 11, property = Some (Multiple False)\<rparr>
      else if key = ascii ''phone'' then Mapping \<lparr>type_code = 13, property = None\<rparr>
      else if key = ascii ''url'' then Mapping \<lparr>type_code = 15, property = None\<rparr>
      else if key = ascii ''email'' then Mapping \<lparr>type_code = 23, property = None\<rparr>
      else if key = ascii ''currency'' then
        Mapping \<lparr>type_code = 25, property = Some (Currency (ascii ''JPY'') (ascii ''#,##0''))\<rparr>
      else if key = ascii ''rating'' then
        Mapping \<lparr>type_code = 26, property = Some (Symbol (ascii ''star''))\<rparr>
      else if key = ascii ''constructor'' \<or> key = ascii ''__proto__'' then Prototype_member key
      else Undefined)"

definition default_options :: "jsstring list" where
  "default_options = [option_key @ ascii ''1'', option_key @ ascii ''2'', option_key @ ascii ''3'']"

text \<open>
  The lookup uses the lower-cased name; the test that installs the default options
  compares the name as given (\<open>type === 'single_select'\<close>).
\<close>

definition getFieldProperty :: "jsstring \<Rightarrow> options \<Rightarrow> mapping_result" where
  "getFieldProperty type options =
     (let result = typeMap options (toLowerCase type) in
      if type = ascii ''single_select'' \<or> type = ascii ''multi_select'' then
        (case result of
           Mapping p \<Rightarrow>
             (case property p of
                Some (Options os) \<Rightarrow>
                  if os = [] then Mapping (p\<lparr>property := Some (Options default_options)\<rparr>)
                  else result
              | _ \<Rightarrow> result)
         | _ \<Rightarrow> result)
      else result)"

section \<open>Sample data synthesizer\<close>

text \<open>
  The values \<open>generateDummyData\<close> returns. For \<open>date\<close> and \<open>date_time\<close> the source returns
  a time stamp computed from the clock and \<open>Math.random\<close>; \<open>DTimestamp\<close> stands for that
  number, which no input determines.
\<close>

datatype sample_value =
    DNull
  | DStr jsstring
  | DNum nat
  | DBool bool
  | DList "jsstring list"
  | DTimestamp

definition select_two :: "jsstring list \<Rightarrow> nat \<Rightarrow> jsstring list" where
  "select_two selectOptions index =
     foldl (\<lambda>selected j.
              let opt = selectOptions ! ((index + j) mod length selectOptions) in
              if opt \<in> set selected then selected else selected @ [opt])
       [] [0 ..< min 2 (length selectOptions)]"

definition selectOptions :: "options \<Rightarrow> jsstring list" where
  "selectOptions options =
     filter (\<lambda>s. s \<noteq> [])
       (map trim (split_comma (case options option_key of None \<Rightarrow> [] | Some v \<Rightarrow> v)))"

definition generateDummyData :: "jsstring \<Rightarrow> options \<Rightarrow> nat \<Rightarrow> sample_value" where
  "generateDummyData type options index =
     (let i = index + 1;
          selectOptions = selectOptions options;
          t = toLowerCase type
      in
      if t = ascii ''text'' then DStr (sample_label @ digits i)
      else if t = ascii ''email'' then DStr (ascii ''sample'' @ digits i @ ascii ''@example.com'')
      else if t = ascii ''phone'' then DStr (ascii ''090-1234-567'' @ digits (index mod 10))
      else if t = ascii ''number'' then DNum (100 + i * 50)
      else if t = ascii ''currency'' then DNum (10000 * i)
      else if t = ascii ''single_select'' then
        (if length selectOptions > 0 then DStr (selectOptions ! (index mod length selectOptions))
         else DStr (option_key @ digits (index mod 3 + 1)))
      else if t = ascii ''multi_select'' then
        (if length selectOptions > 0 then DList (select_two selectOptions index)
         else DList [option_key @ digits (index mod 3 + 1)])
      else if t = ascii ''date'' \<or> t = ascii ''date_time'' then DTimestamp
      else if t = ascii ''checkbox'' then DBool (i mod 2 = 0)
      else if t = ascii ''url'' then DStr (ascii ''https://example.com/item/'' @ digits i)
      else if t = ascii ''rating'' then DNum (index mod 5 + 1)
      else DNull)"

section \<open>The network\<close>

text \<open>
  Errors are values. Each constructor stands for one \<open>throw\<close> of the source or for an
  exception of the runtime (\<open>Network_error\<close>: \<open>fetch\<close> rejects; \<open>Invalid_json\<close>:
  \<open>response.json()\<close> rejects or yields no object; \<open>Type_error\<close>: a property of
  \<open>undefined\<close> or \<open>null\<close> is read). The message texts are not modelled.
\<close>

datatype error =
    Prompt_required
  | Prompt_too_long
  | Schema_generation_failed
  | Too_many_tables
  | Api_key_missing
  | Gemini_http_error nat
  | Ai_response_invalid nat
  | Json_parse_failed
  | No_valid_json
  | Ai_format_invalid
  | No_tables_generated
  | Ai_processing_failed error
  | Credentials_missing
  | Token_http_error nat
  | Token_refused "jsstring option"
  | Http_error nat
  | Lark_api_error "int option" "jsstring option"
  | Network_error
  | Invalid_json
  | Type_error

datatype 'a outcome = Return 'a | Throw error

text \<open>
  What the program reads of a JSON response body: \<open>candidate_text\<close> is
  \<open>candidates?.[0]?.content?.parts?.[0]?.text\<close>; a property that is absent is \<open>None\<close>.
  \<open>data_records\<close> is \<open>data.records\<close>; its elements stand for the created records.
\<close>

record app_info =
  app_token :: "jsstring option"
  url :: "jsstring option"

record reply_data =
  app :: "app_info option"
  table_id :: "jsstring option"
  data_records :: "jsstring list option"

record reply =
  candidate_text :: "jsstring option"
  code :: "int option"
  msg :: "jsstring option"
  tenant_access_token :: "jsstring option"
  data :: "reply_data option"

datatype body = Unreadable | Json reply

datatype response = Rejected | Response nat body

definition ok :: "nat \<Rightarrow> bool" where
  "ok status \<longleftrightarrow> 200 \<le> status \<and> status \<le> 299"

type_synonym row = "jsstring \<rightharpoonup> sample_value"

text \<open>
  The requests of the program, by what varies in their URL and body: the generation
  request (API key, user prompt), the token request (app id, app secret), and the four
  calls made through \<open>apiCall\<close> (bearer token first). A token, app token or table id read
  from an earlier reply may be \<open>undefined\<close>.
\<close>

datatype request =
    Generate jsstring jsstring
  | Tenant_token jsstring jsstring
  | Create_base "jsstring option" jsstring
  | Create_table "jsstring option" "jsstring option" jsstring
  | Create_field "jsstring option" "jsstring option" "jsstring option" jsstring
      "nat option" "property option"
  | Batch_create "jsstring option" "jsstring option" "jsstring option" "row list"

datatype event = Fetch request | Sleep nat

type_synonym trace = "event list"

text \<open>
  The outside world answers the \<open>n\<close>-th \<open>fetch\<close> of a run, given its request. A run
  threads the trace of its fetches and sleeps; all calls are sequential.
\<close>

type_synonym net = "nat \<Rightarrow> request \<Rightarrow> response"

fun is_fetch :: "event \<Rightarrow> bool" where
  "is_fetch (Fetch _) = True"
| "is_fetch (Sleep _) = False"

definition fetches :: "trace \<Rightarrow> nat" where
  "fetches tr = length (filter is_fetch tr)"

definition fetch :: "net \<Rightarrow> request \<Rightarrow> trace \<Rightarrow> response" where
  "fetch net req tr = net (fetches tr) req"

definition sent :: "request \<Rightarrow> trace \<Rightarrow> trace" where
  "sent req tr = tr @ [Fetch req]"

definition sleep :: "nat \<Rightarrow> trace \<Rightarrow> trace" where
  "sleep ms tr = tr @ [Sleep ms]"

section \<open>Remote API client\<close>

text \<open>
  One pass through the \<open>try\<close> block of \<open>apiCall\<close>: the call returns the data, an error
  is thrown to the \<open>catch\<close> clause, or the pass sleeps and \<open>continue\<close>s.
\<close>

datatype attempt_result = Returned reply | Caught error | Continue nat

definition apiCall_try :: "nat \<Rightarrow> nat \<Rightarrow> response \<Rightarrow> attempt_result" where
  "apiCall_try retries attempt resp =
     (case resp of
        Rejected \<Rightarrow> Caught Network_error
      | Response status body \<Rightarrow>
          if \<not> ok status then
            (if status = 429 then Continue (1000 * 2 ^ attempt)
             else Caught (Http_error status))
          else
            (case body of
               Unreadable \<Rightarrow> Caught Invalid_json
             | Json json \<Rightarrow>
                 if code json \<noteq> Some 0 then
                   (if code json = Some 99991400 \<and> attempt < retries
                    then Continue (1000 * attempt)
                    else Caught (Lark_api_error (code json) (msg json)))
                 else Returned json))"

text \<open>
  The loop \<open>for (attempt = 1; attempt <= retries; attempt++)\<close>. When the loop ends
  without \<open>return\<close> or \<open>throw\<close>, the function returns \<open>undefined\<close>: \<open>Return None\<close>.
\<close>

function apiCall_attempts ::
  "net \<Rightarrow> request \<Rightarrow> nat \<Rightarrow> nat \<Rightarrow> trace \<Rightarrow> reply option outcome \<times> trace" where
  "apiCall_attempts net req retries attempt tr =
     (if attempt \<le> retries then
        (case apiCall_try retries attempt (fetch net req tr) of
           Returned json \<Rightarrow> (Return (Some json), sent req tr)
         | Continue waitTime \<Rightarrow>
             apiCall_attempts net req retries (attempt + 1) (sleep waitTime (sent req tr))
         | Caught e \<Rightarrow>
             if attempt = retries then (Throw e, sent req tr)
             else apiCall_attempts net req retries (attempt + 1)
                    (sleep (1000 * attempt) (sent req tr)))
      else (Return None, tr))"
  by pat_completeness auto
termination
  by (relation "measure (\<lambda>(net, req, retries, attempt, tr). Suc retries - attempt)") auto

declare apiCall_attempts.simps [simp del]

definition apiCall :: "net \<Rightarrow> request \<Rightarrow> nat \<Rightarrow> trace \<Rightarrow> reply option outcome \<times> trace" where
  "apiCall net req retries tr = apiCall_attempts net req retries 1 tr"

section \<open>Token acquirer\<close>

record env =
  GEMINI_API_KEY :: "jsstring option"
  LARK_APP_ID :: "jsstring option"
  LARK_APP_SECRET :: "jsstring option"

definition getTenantAccessToken ::
  "net \<Rightarrow> env \<Rightarrow> trace \<Rightarrow> jsstring option outcome \<times> trace" where
  "getTenantAccessToken net env tr =
     (case (LARK_APP_ID env, LARK_APP_SECRET env) of
        (Some app_id, Some app_secret) \<Rightarrow>
          if app_id = [] \<or> app_secret = [] then (Throw Credentials_missing, tr)
          else
            (let req = Tenant_token app_id app_secret in
             case fetch net req tr of
               Rejected \<Rightarrow> (Throw Network_error, sent req tr)
             | Response status body \<Rightarrow>
                 if \<not> ok status then (Throw (Token_http_error status), sent req tr)
                 else
                   (case body of
                      Unreadable \<Rightarrow> (Throw Invalid_json, sent req tr)
                    | Json json \<Rightarrow>
                        if code json \<noteq> Some 0 then (Throw (Token_refused (msg json)), sent req tr)
                        else (Return (tenant_access_token json), sent req tr)))
      | _ \<Rightarrow> (Throw Credentials_missing, tr))"

definition createBaseApp ::
  "net \<Rightarrow> jsstring option \<Rightarrow> jsstring \<Rightarrow> trace \<Rightarrow> reply option outcome \<times> trace" where
  "createBaseApp net token baseName tr = apiCall net (Create_base token baseName) 3 tr"

section \<open>Schema generator\<close>

text \<open>
  \<open>JSON.parse\<close> belongs to the language, not to the program: it is a parameter
  \<open>JSON_parse\<close>, with \<open>None\<close> for a \<open>SyntaxError\<close>. Of a parsed value the program reads its
  truth value and the properties \<open>baseName\<close> (\<open>None\<close> when absent) and \<open>tables\<close> (\<open>None\<close>
  when absent or not an array; an element \<open>None\<close> of the array is \<open>null\<close>). \<open>Falsy\<close> is \<open>null\<close>, \<open>false\<close>, \<open>0\<close> or the empty string, and
  also the initial \<open>null\<close> of \<open>parsedData\<close>.
\<close>

record generated =
  baseName :: "jsstring option"
  tables :: "table option list option"

datatype json_value = Falsy | Truthy generated

type_synonym parser = "jsstring \<Rightarrow> json_value option"

text \<open>
  \<open>rawText.match(/```json\s*([\s\S]*?)\s*```/)\<close>, the value of group 1 of the leftmost
  match. After the opening fence the greedy \<open>\s*\<close> takes all white space; the lazy group
  then takes the fewest code units after which white space and a closing fence follow.
\<close>

definition fence :: jsstring where
  "fence = [96, 96, 96]"

fun starts_with :: "jsstring \<Rightarrow> jsstring \<Rightarrow> bool" where
  "starts_with [] s = True"
| "starts_with (p # ps) [] = False"
| "starts_with (p # ps) (c # cs) = (p = c \<and> starts_with ps cs)"

definition closes :: "jsstring \<Rightarrow> bool" where
  "closes s = starts_with fence (dropWhile is_space s)"

fun lazy_group :: "jsstring \<Rightarrow> jsstring option" where
  "lazy_group [] = None"
| "lazy_group (c # cs) =
     (if closes (c # cs) then Some [] else map_option ((#) c) (lazy_group cs))"

fun json_fence :: "jsstring \<Rightarrow> jsstring option" where
  "json_fence [] = None"
| "json_fence (c # cs) =
     (if starts_with (fence @ ascii ''json'') (c # cs) then
        (case lazy_group (dropWhile is_space (drop 7 (c # cs))) of
           Some captured \<Rightarrow> Some captured
         | None \<Rightarrow> json_fence cs)
      else json_fence cs)"

definition indexOf :: "jsstring \<Rightarrow> nat \<Rightarrow> nat option" where
  "indexOf s c = (if c \<in> set s then Some (length (takeWhile (\<lambda>x. x \<noteq> c) s)) else None)"

definition lastIndexOf :: "jsstring \<Rightarrow> nat \<Rightarrow> nat option" where
  "lastIndexOf s c =
     (if c \<in> set s then Some (length s - 1 - length (takeWhile (\<lambda>x. x \<noteq> c) (rev s)))
      else None)"

definition substring :: "jsstring \<Rightarrow> nat \<Rightarrow> nat \<Rightarrow> jsstring" where
  "substring s indexStart indexEnd = take (indexEnd - indexStart) (drop indexStart s)"

text \<open>
  The three nested \<open>try\<close> blocks. Method 2 is entered when method 1 throws, method 3 when
  the \<open>JSON.parse\<close> of method 2 throws; a method whose \<open>if\<close> is not taken leaves
  \<open>parsedData\<close> as it is and throws nothing.
\<close>

definition method3 :: "parser \<Rightarrow> jsstring \<Rightarrow> error + json_value" where
  "method3 JSON_parse rawText =
     (case (indexOf rawText 123, lastIndexOf rawText 125) of
        (Some firstBrace, Some lastBrace) \<Rightarrow>
          if lastBrace > firstBrace then
            (case JSON_parse (substring rawText firstBrace (lastBrace + 1)) of
               Some v \<Rightarrow> Inr v
             | None \<Rightarrow> Inl Json_parse_failed)
          else Inr Falsy
      | _ \<Rightarrow> Inr Falsy)"

definition method2 :: "parser \<Rightarrow> jsstring \<Rightarrow> error + json_value" where
  "method2 JSON_parse rawText =
     (case json_fence rawText of
        Some captured \<Rightarrow>
          if captured \<noteq> [] then
            (case JSON_parse captured of
               Some v \<Rightarrow> Inr v
             | None \<Rightarrow> method3 JSON_parse rawText)
          else Inr Falsy
      | None \<Rightarrow> Inr Falsy)"

definition method1 :: "parser \<Rightarrow> jsstring \<Rightarrow> error + json_value" where
  "method1 JSON_parse rawText =
     (case JSON_parse rawText of
        Some v \<Rightarrow> Inr v
      | None \<Rightarrow> method2 JSON_parse rawText)"

definition parse_text :: "parser \<Rightarrow> jsstring \<Rightarrow> error + generated" where
  "parse_text JSON_parse rawText =
     (case method1 JSON_parse rawText of
        Inl e \<Rightarrow> Inl e
      | Inr Falsy \<Rightarrow> Inl No_valid_json
      | Inr (Truthy parsedData) \<Rightarrow> Inr parsedData)"

definition validate :: "generated \<Rightarrow> error + generated" where
  "validate parsedData =
     (case (baseName parsedData, tables parsedData) of
        (Some name, Some ts) \<Rightarrow>
          if name = [] then Inl Ai_format_invalid
          else if length ts = 0 then Inl No_tables_generated
          else Inr parsedData
      | _ \<Rightarrow> Inl Ai_format_invalid)"

text \<open>The body of the \<open>try\<close> block of one attempt, after \<open>fetch\<close> has answered.\<close>

definition generate_try :: "parser \<Rightarrow> nat \<Rightarrow> response \<Rightarrow> error + generated" where
  "generate_try JSON_parse attempt resp =
     (case resp of
        Rejected \<Rightarrow> Inl Network_error
      | Response status body \<Rightarrow>
          if \<not> ok status then Inl (Gemini_http_error status)
          else
            (case body of
               Unreadable \<Rightarrow> Inl Invalid_json
             | Json result \<Rightarrow>
                 (case candidate_text result of
                    None \<Rightarrow> Inl (Ai_response_invalid attempt)
                  | Some rawText \<Rightarrow>
                      if rawText = [] then Inl (Ai_response_invalid attempt)
                      else
                        (case parse_text JSON_parse rawText of
                           Inl e \<Rightarrow> Inl e
                         | Inr parsedData \<Rightarrow> validate parsedData))))"

function generate_attempts ::
  "net \<Rightarrow> parser \<Rightarrow> request \<Rightarrow> nat \<Rightarrow> error option \<Rightarrow> trace \<Rightarrow> generated outcome \<times> trace"
  where
  "generate_attempts net JSON_parse req attempt lastError tr =
     (if attempt \<le> 5 then
        (case generate_try JSON_parse attempt (fetch net req tr) of
           Inr parsedData \<Rightarrow> (Return parsedData, sent req tr)
         | Inl e \<Rightarrow>
             generate_attempts net JSON_parse req (attempt + 1) (Some e)
               (if attempt < 5 then sleep (1000 * 2 ^ (attempt - 1)) (sent req tr)
                else sent req tr))
      else
        (case lastError of
           Some e \<Rightarrow> (Throw (Ai_processing_failed e), tr)
         | None \<Rightarrow> (Throw Type_error, tr)))"
  by pat_completeness auto
termination
  by (relation "measure (\<lambda>(net, JSON_parse, req, attempt, lastError, tr). 6 - attempt)") auto

declare generate_attempts.simps [simp del]

definition generateSchemaFromAI ::
  "net \<Rightarrow> parser \<Rightarrow> jsstring \<Rightarrow> jsstring option \<Rightarrow> trace \<Rightarrow> generated outcome \<times> trace" where
  "generateSchemaFromAI net JSON_parse userPrompt apiKey tr =
     (case apiKey of
        None \<Rightarrow> (Throw Api_key_missing, tr)
      | Some key \<Rightarrow>
          if key = [] then (Throw Api_key_missing, tr)
          else generate_attempts net JSON_parse (Generate key userPrompt) 1 None tr)"

section \<open>Sample records\<close>

text \<open>
  A row is a plain object, given by its own properties: the map from its keys to their
  values, which is what \<open>Object.keys\<close> counts and what the request body carries.
  \<open>assign obj key v\<close> is the assignment \<open>obj[key] = v\<close>. Under the key \<open>__proto__\<close> it
  reaches the setter inherited from \<open>Object.prototype\<close>, which creates no own property
  (it ignores a string, number or boolean and makes an array the prototype of the
  object); under every other key it creates or overwrites the own property.
\<close>

definition assign :: "row \<Rightarrow> jsstring \<Rightarrow> sample_value \<Rightarrow> row" where
  "assign obj key v = (if key = ascii ''__proto__'' then obj else obj(key \<mapsto> v))"

text \<open>
  \<open>recordFields\<close> is the object built for row \<open>i\<close>: a field whose value is not \<open>null\<close> is
  assigned under its name. \<open>build_records\<close> is the first loop of \<open>addSampleRecords\<close>,
  which keeps a row when \<open>Object.keys(recordFields).length > 0\<close>.
\<close>

definition recordFields :: "field list \<Rightarrow> nat \<Rightarrow> row" where
  "recordFields field_list i =
     foldl (\<lambda>recordFields field.
              let dummyData = generateDummyData (field_type field) (field_options field) i in
              if dummyData \<noteq> DNull then assign recordFields (field_name field) dummyData
              else recordFields)
       Map.empty field_list"

definition build_records :: "field list \<Rightarrow> nat \<Rightarrow> row list" where
  "build_records field_list count =
     foldl (\<lambda>records i.
              let recordFields = recordFields field_list i in
              if dom recordFields \<noteq> {} then records @ [recordFields] else records)
       [] [0 ..< count]"

text \<open>
  The second loop, \<open>for (i = 0; i < records.length; i += batchSize)\<close>. A reply of
  \<open>undefined\<close> makes \<open>result.data\<close> throw inside the \<open>try\<close>, like a thrown call.
\<close>

function insert_batches ::
  "net \<Rightarrow> jsstring option \<Rightarrow> jsstring option \<Rightarrow> jsstring option \<Rightarrow> row list \<Rightarrow> nat
     \<Rightarrow> jsstring list \<Rightarrow> trace \<Rightarrow> jsstring list \<times> trace" where
  "insert_batches net token appToken tableId records i allResults tr =
     (if i < length records then
        (case apiCall net (Batch_create token appToken tableId (take 10 (drop i records))) 3 tr of
           (Return (Some result), tr1) \<Rightarrow>
             insert_batches net token appToken tableId records (i + 10)
               (allResults @
                  (case data result of
                     None \<Rightarrow> []
                   | Some d \<Rightarrow> (case data_records d of None \<Rightarrow> [] | Some rs \<Rightarrow> rs)))
               (if i + 10 < length records then sleep 500 tr1 else tr1)
         | (Return None, tr1) \<Rightarrow>
             insert_batches net token appToken tableId records (i + 10) allResults tr1
         | (Throw e, tr1) \<Rightarrow>
             insert_batches net token appToken tableId records (i + 10) allResults tr1)
      else (allResults, tr))"
  by pat_completeness auto
termination
  by (relation "measure (\<lambda>(net, token, appToken, tableId, records, i, allResults, tr).
        length records - i)") auto

declare insert_batches.simps [simp del]

definition addSampleRecords ::
  "net \<Rightarrow> jsstring option \<Rightarrow> jsstring option \<Rightarrow> jsstring option \<Rightarrow> field list \<Rightarrow> int
     \<Rightarrow> trace \<Rightarrow> jsstring list \<times> trace" where
  "addSampleRecords net token appToken tableId field_list count tr =
     (if count \<le> 0 \<or> length field_list = 0 then ([], tr)
      else
        (let records = build_records field_list (nat count) in
         if length records = 0 then ([], tr)
         else insert_batches net token appToken tableId records 0 [] tr))"

section \<open>Provisioning\<close>

fun payload_type :: "mapping_result \<Rightarrow> nat option" where
  "payload_type (Mapping p) = Some (type_code p)"
| "payload_type _ = None"

fun payload_property :: "mapping_result \<Rightarrow> property option" where
  "payload_property (Mapping p) = property p"
| "payload_property _ = None"

text \<open>
  The loop over \<open>table.fields\<close>: an unmapped type is skipped, a thrown call is logged,
  and a call that returns counts as a created field.
\<close>

fun create_fields ::
  "net \<Rightarrow> jsstring option \<Rightarrow> jsstring option \<Rightarrow> jsstring option \<Rightarrow> field list \<Rightarrow> nat
     \<Rightarrow> trace \<Rightarrow> nat \<times> trace" where
  "create_fields net token newAppToken tableId [] fieldsCreated tr = (fieldsCreated, tr)"
| "create_fields net token newAppToken tableId (field # rest) fieldsCreated tr =
     (let fieldPayload = getFieldProperty (field_type field) (field_options field) in
      if fieldPayload = Undefined then
        create_fields net token newAppToken tableId rest fieldsCreated tr
      else
        (case apiCall net
                (Create_field token newAppToken tableId (field_name field)
                   (payload_type fieldPayload) (payload_property fieldPayload)) 3 tr of
           (Return _, tr1) \<Rightarrow>
             create_fields net token newAppToken tableId rest (fieldsCreated + 1) (sleep 300 tr1)
         | (Throw fieldError, tr1) \<Rightarrow>
             create_fields net token newAppToken tableId rest fieldsCreated tr1))"

record table_result =
  tableName :: jsstring
  status :: jsstring
  tableId :: "jsstring option"
  fieldsCreated :: "nat option"
  recordsAdded :: "nat option"
  error :: "error option"

definition failed :: "table \<Rightarrow> error \<Rightarrow> table_result" where
  "failed table tableError =
     \<lparr>tableName = table_name table, status = ascii ''Failed'', tableId = None,
      fieldsCreated = None, recordsAdded = None, error = Some tableError\<rparr>"

text \<open>
  The body of the loop over the tables, for a table that is an object: the outer \<open>try\<close>
  with its \<open>catch\<close>. Reading \<open>createTableRes.data.table_id\<close> throws when the call returned
  \<open>undefined\<close> or a reply without \<open>data\<close>. The head of the loop over \<open>table.fields\<close> stands
  after the pause of 500 ms and outside the \<open>try\<close> of the single field, so that fields which
  cannot be iterated throw to the \<open>catch\<close> of the table.
\<close>

definition provision_table ::
  "net \<Rightarrow> jsstring option \<Rightarrow> jsstring option \<Rightarrow> table \<Rightarrow> trace \<Rightarrow> table_result \<times> trace"
  where
  "provision_table net token newAppToken table tr =
     (case apiCall net (Create_table token newAppToken (table_name table)) 3 tr of
        (Throw tableError, tr1) \<Rightarrow> (failed table tableError, tr1)
      | (Return None, tr1) \<Rightarrow> (failed table Type_error, tr1)
      | (Return (Some createTableRes), tr1) \<Rightarrow>
          (case data createTableRes of
             None \<Rightarrow> (failed table Type_error, tr1)
           | Some d \<Rightarrow>
               (case table_fields table of
                  None \<Rightarrow> (failed table Type_error, sleep 500 tr1)
                | Some field_list \<Rightarrow>
                    (case create_fields net token newAppToken (table_id d) field_list 0
                            (sleep 500 tr1) of
                       (created, tr2) \<Rightarrow>
                         (case (if sampleDataCount table > 0 \<and> created > 0 then
                                  (case addSampleRecords net token newAppToken (table_id d)
                                          field_list (min (sampleDataCount table) 20) tr2 of
                                     (added, tr3) \<Rightarrow> (length added, tr3))
                                else (0, tr2)) of
                            (added, tr3) \<Rightarrow>
                              (\<lparr>tableName = table_name table, status = ascii ''Success'',
                                tableId = table_id d, fieldsCreated = Some created,
                                recordsAdded = Some added, error = None\<rparr>, tr3))))))"

text \<open>
  The loop over \<open>tables\<close>. For an element that is \<open>null\<close>, \<open>table.name\<close> throws in the \<open>try\<close>
  before any call, and again in the message of the \<open>catch\<close> clause: that error leaves the
  loop and reaches the \<open>catch\<close> of \<open>handleApiPost\<close>.
\<close>

fun provision_tables ::
  "net \<Rightarrow> jsstring option \<Rightarrow> jsstring option \<Rightarrow> table option list \<Rightarrow> table_result list
     \<Rightarrow> trace \<Rightarrow> table_result list outcome \<times> trace" where
  "provision_tables net token newAppToken [] results tr = (Return results, tr)"
| "provision_tables net token newAppToken (None # rest) results tr = (Throw Type_error, tr)"
| "provision_tables net token newAppToken (Some table # rest) results tr =
     (case provision_table net token newAppToken table tr of
        (result, tr1) \<Rightarrow> provision_tables net token newAppToken rest (results @ [result]) tr1)"

section \<open>The request handler\<close>

record summary =
  totalTables :: nat
  successfulTables :: nat
  failedTables :: nat

record created =
  created_baseName :: jsstring
  baseUrl :: "jsstring option"
  created_summary :: summary
  details :: "table_result list"

datatype post_payload = Success_body created | Error_body error

datatype post_response = Post_response nat post_payload

text \<open>
  The body of the request: unreadable, or an object whose \<open>prompt\<close> is a string or
  absent.
\<close>

datatype post_request = Unreadable_request | Prompt "jsstring option"

definition provision ::
  "net \<Rightarrow> env \<Rightarrow> jsstring \<Rightarrow> table option list \<Rightarrow> trace \<Rightarrow> created outcome \<times> trace"
  where
  "provision net env name ts tr =
     (case getTenantAccessToken net env tr of
        (Throw e, tr1) \<Rightarrow> (Throw e, tr1)
      | (Return tenantAccessToken, tr1) \<Rightarrow>
          (case createBaseApp net tenantAccessToken name tr1 of
             (Throw e, tr2) \<Rightarrow> (Throw e, tr2)
           | (Return None, tr2) \<Rightarrow> (Throw Type_error, tr2)
           | (Return (Some createBaseRes), tr2) \<Rightarrow>
               (case data createBaseRes of
                  None \<Rightarrow> (Throw Type_error, tr2)
                | Some d \<Rightarrow>
                    (case app d of
                       None \<Rightarrow> (Throw Type_error, tr2)
                     | Some a \<Rightarrow>
                         (case provision_tables net tenantAccessToken (app_token a) ts [] tr2 of
                            (Throw e, tr3) \<Rightarrow> (Throw e, tr3)
                          | (Return results, tr3) \<Rightarrow>
                              (Return
                                 \<lparr>created_baseName = name, baseUrl = url a,
                                  created_summary =
                                    \<lparr>totalTables = length ts,
                                     successfulTables =
                                       length (filter (\<lambda>r. status r = ascii ''Success'') results),
                                     failedTables =
                                       length (filter (\<lambda>r. status r = ascii ''Failed'') results)\<rparr>,
                                  details = results\<rparr>, tr3))))))"

text \<open>The \<open>try\<close> block of \<open>handleApiPost\<close>, from the validation of the prompt on.\<close>

definition handle_try ::
  "net \<Rightarrow> parser \<Rightarrow> env \<Rightarrow> post_request \<Rightarrow> created outcome \<times> trace" where
  "handle_try net JSON_parse env request =
     (case request of
        Unreadable_request \<Rightarrow> (Throw Invalid_json, [])
      | Prompt None \<Rightarrow> (Throw Prompt_required, [])
      | Prompt (Some prompt) \<Rightarrow>
          if prompt = [] \<or> length (trim prompt) = 0 then (Throw Prompt_required, [])
          else if length prompt > 2000 then (Throw Prompt_too_long, [])
          else
            (case generateSchemaFromAI net JSON_parse prompt (GEMINI_API_KEY env) [] of
               (Throw e, tr) \<Rightarrow> (Throw e, tr)
             | (Return aiResponse, tr) \<Rightarrow>
                 (case (baseName aiResponse, tables aiResponse) of
                    (Some name, Some ts) \<Rightarrow>
                      if name = [] \<or> length ts = 0 then (Throw Schema_generation_failed, tr)
                      else if length ts > 10 then (Throw Too_many_tables, tr)
                      else provision net env name ts tr
                  | _ \<Rightarrow> (Throw Schema_generation_failed, tr))))"

definition handleApiPost ::
  "net \<Rightarrow> parser \<Rightarrow> env \<Rightarrow> post_request \<Rightarrow> post_response \<times> trace" where
  "handleApiPost net JSON_parse env request =
     (case handle_try net JSON_parse env request of
        (Return body, tr) \<Rightarrow> (Post_response 200 (Success_body body), tr)
      | (Throw e, tr) \<Rightarrow> (Post_response 500 (Error_body e), tr))"

section \<open>Concrete inputs\<close>

text \<open>
  A response text and the value \<open>JSON.parse\<close> gives for it, used where a statement is
  evaluated at a concrete input. A parser given as a finite map treats every other text
  as a syntax error.
\<close>

definition schema_text :: jsstring where
  "schema_text =
     ascii ''{\"baseName\":\"B\",\"tables\":[{\"name\":\"T\",\"fields\":[],\"sampleDataCount\":0}]}''"

definition schema_value :: generated where
  "schema_value =
     \<lparr>baseName = Some (ascii ''B''),
      tables = Some [Some \<lparr>table_name = ascii ''T'', table_fields = Some [],
                           sampleDataCount = 0\<rparr>]\<rparr>"

definition text_reply :: "jsstring \<Rightarrow> response" where
  "text_reply rawText =
     Response 200
       (Json \<lparr>candidate_text = Some rawText, code = None, msg = None,
               tenant_access_token = None, data = None\<rparr>)"

definition text_field :: field where
  "text_field =
     \<lparr>field_name = ascii ''name'', field_type = ascii ''text'', field_options = Map.empty\<rparr>"

definition formula_field :: field where
  "formula_field =
     \<lparr>field_name = ascii ''total'', field_type = ascii ''formula'', field_options = Map.empty\<rparr>"

definition proto_field :: field where
  "proto_field =
     \<lparr>field_name = ascii ''__proto__'', field_type = ascii ''text'',
      field_options = Map.empty\<rparr>"

definition table_text :: jsstring where
  "table_text = ascii ''{\"name\":\"T\",\"fields\":[],\"sampleDataCount\":0}''"

definition eleven_text :: jsstring where
  "eleven_text =
     ascii ''{\"baseName\":\"B\",\"tables\":['' @ table_text
       @ concat (replicate 10 (ascii '','' @ table_text)) @ ascii '']}''"

definition eleven_value :: generated where
  "eleven_value =
     \<lparr>baseName = Some (ascii ''B''),
      tables = Some (replicate 11
                 (Some \<lparr>table_name = ascii ''T'', table_fields = Some [],
                        sampleDataCount = 0\<rparr>))\<rparr>"

definition test_env :: env where
  "test_env =
     \<lparr>GEMINI_API_KEY = Some (ascii ''k''), LARK_APP_ID = Some (ascii ''id''),
      LARK_APP_SECRET = Some (ascii ''secret'')\<rparr>"

text \<open>
  A schema of three tables with one text field each, the first asking for two sample
  rows, and a workspace that answers every request with success, except the requests
  selected by \<open>failing\<close>, which receive HTTP 500.
\<close>

definition three_text :: jsstring where
  "three_text =
     ascii ''{\"baseName\":\"B\",\"tables\":[''
     @ ascii ''{\"name\":\"T1\",\"fields\":[{\"name\":\"name\",\"type\":\"text\"}],\"sampleDataCount\":2},''
     @ ascii ''{\"name\":\"T2\",\"fields\":[{\"name\":\"name\",\"type\":\"text\"}],\"sampleDataCount\":0},''
     @ ascii ''{\"name\":\"T3\",\"fields\":[{\"name\":\"name\",\"type\":\"text\"}],\"sampleDataCount\":0}]}''"

definition demo_table :: "string \<Rightarrow> int \<Rightarrow> table" where
  "demo_table name n =
     \<lparr>table_name = ascii name, table_fields = Some [text_field], sampleDataCount = n\<rparr>"

definition three_tables :: "table list" where
  "three_tables = [demo_table ''T1'' 2, demo_table ''T2'' 0, demo_table ''T3'' 0]"

definition three_value :: generated where
  "three_value = \<lparr>baseName = Some (ascii ''B''), tables = Some (map Some three_tables)\<rparr>"

definition success_reply :: reply where
  "success_reply =
     \<lparr>candidate_text = None, code = Some 0, msg = None, tenant_access_token = None,
      data = None\<rparr>"

definition workspace :: "(request \<Rightarrow> bool) \<Rightarrow> net" where
  "workspace failing n req =
     (if failing req then Response 500 Unreadable
      else
        (case req of
           Generate key prompt \<Rightarrow> text_reply three_text
         | Tenant_token app_id app_secret \<Rightarrow>
             Response 200 (Json (success_reply\<lparr>tenant_access_token := Some (ascii ''t'')\<rparr>))
         | Create_base token name \<Rightarrow>
             Response 200
               (Json (success_reply
                  \<lparr>data := Some \<lparr>app = Some \<lparr>app_token = Some (ascii ''app''),
                                               url = Some (ascii ''https://base/app'')\<rparr>,
                                   table_id = None, data_records = None\<rparr>\<rparr>))
         | Create_table token appToken name \<Rightarrow>
             Response 200
               (Json (success_reply
                  \<lparr>data := Some \<lparr>app = None, table_id = Some name, data_records = None\<rparr>\<rparr>))
         | Create_field token appToken tid name ty prop \<Rightarrow> Response 200 (Json success_reply)
         | Batch_create token appToken tid rows \<Rightarrow>
             Response 200
               (Json (success_reply
                  \<lparr>data := Some \<lparr>app = None, table_id = None,
                                   data_records = Some (map (\<lambda>row. ascii ''rec'') rows)\<rparr>\<rparr>))))"

text \<open>
  The same schema with the \<open>fields\<close> member of the second table left out, and a workspace
  that answers its generation request with that text and every other request with
  success.
\<close>

definition gap_text :: jsstring where
  "gap_text =
     ascii ''{\"baseName\":\"B\",\"tables\":[''
     @ ascii ''{\"name\":\"T1\",\"fields\":[{\"name\":\"name\",\"type\":\"text\"}],\"sampleDataCount\":2},''
     @ ascii ''{\"name\":\"T2\",\"sampleDataCount\":0},''
     @ ascii ''{\"name\":\"T3\",\"fields\":[{\"name\":\"name\",\"type\":\"text\"}],\"sampleDataCount\":0}]}''"

definition gap_tables :: "table list" where
  "gap_tables =
     [demo_table ''T1'' 2,
      \<lparr>table_name = ascii ''T2'', table_fields = None, sampleDataCount = 0\<rparr>,
      demo_table ''T3'' 0]"

definition gap_value :: generated where
  "gap_value = \<lparr>baseName = Some (ascii ''B''), tables = Some (map Some gap_tables)\<rparr>"

definition gap_workspace :: net where
  "gap_workspace n req =
     (case req of
        Generate key prompt \<Rightarrow> text_reply gap_text
      | _ \<Rightarrow> workspace (\<lambda>r. False) n req)"

definition fields_of_T2 :: "request \<Rightarrow> bool" where
  "fields_of_T2 req =
     (case req of
        Create_field token appToken tid name ty prop \<Rightarrow> tid = Some (ascii ''T2'')
      | _ \<Rightarrow> False)"

definition table_T2 :: "request \<Rightarrow> bool" where
  "table_T2 req =
     (case req of
        Create_table token appToken name \<Rightarrow> name = ascii ''T2''
      | _ \<Rightarrow> False)"

section \<open>Properties of the field type mapper\<close>

lemma ascii_simps [simp]:
  "ascii [] = []"
  "ascii (c # cs) = of_char c # ascii cs"
  by (simp_all add: ascii_def)

lemma toLowerCase_simps [simp]:
  "toLowerCase [] = []"
  "toLowerCase (c # cs) = lower_unit c @ toLowerCase cs"
  by (simp_all add: toLowerCase_def)

lemma typeMap_type_codes:
  "typeMap options (ascii ''text'') = Mapping \<lparr>type_code = 1, property = None\<rparr>"
  "typeMap options (ascii ''number'') =
     Mapping \<lparr>type_code = 2, property = Some (Formatter (ascii ''0''))\<rparr>"
  "typeMap options (ascii ''single_select'') =
     Mapping \<lparr>type_code = 3, property = Some (Options (getOptions options))\<rparr>"
  "typeMap options (ascii ''multi_select'') =
     Mapping \<lparr>type_code = 4, property = Some (Options (getOptions options))\<rparr>"
  "typeMap options (ascii ''date'') =
     Mapping \<lparr>type_code = 5, property = Some (Date_formatter (ascii ''yyyy/MM/dd''))\<rparr>"
  "typeMap options (ascii ''date_time'') =
     Mapping \<lparr>type_code = 5, property = Some (Date_formatter (ascii ''yyyy/MM/dd HH:mm''))\<rparr>"
  "typeMap options (ascii ''checkbox'') = Mapping \<lparr>type_code = 7, property = None\<rparr>"
  "typeMap options (ascii ''member'') =
     Mapping \<lparr>type_code = 11, property = Some (Multiple False)\<rparr>"
  "typeMap options (ascii ''phone'') = Mapping \<lparr>type_code = 13, property = None\<rparr>"
  "typeMap options (ascii ''url'') = Mapping \<lparr>type_code = 15, property = None\<rparr>"
  "typeMap options (ascii ''email'') = Mapping \<lparr>type_code = 23, property = None\<rparr>"
  "typeMap options (ascii ''currency'') =
     Mapping \<lparr>type_code = 25, property = Some (Currency (ascii ''JPY'') (ascii ''#,##0''))\<rparr>"
  "typeMap options (ascii ''rating'') =
     Mapping \<lparr>type_code = 26, property = Some (Symbol (ascii ''star''))\<rparr>"
  by (simp_all add: typeMap_def)

text \<open>
  \<open>getFieldProperty\<close> is the lookup under the lower-cased name, except that the two
  select names, written exactly, receive the default options when they have none.
\<close>

lemma getFieldProperty_unfold:
  "getFieldProperty t options
     = (if (t = ascii ''single_select'' \<or> t = ascii ''multi_select'') \<and> getOptions options = []
        then Mapping \<lparr>type_code = (if t = ascii ''single_select'' then 3 else 4),
                      property = Some (Options default_options)\<rparr>
        else typeMap options (toLowerCase t))"
proof (cases "t = ascii ''single_select'' \<or> t = ascii ''multi_select''")
  case True
  then show ?thesis
    by (auto simp add: getFieldProperty_def typeMap_def lower_unit_def)
next
  case False
  then show ?thesis
    by (simp add: getFieldProperty_def)
qed

text \<open>The type codes of the thirteen supported names, matched case-insensitively.\<close>

lemma typeMap_type_code:
  assumes "(name, n) \<in> set [(''text'', 1), (''number'', 2), (''single_select'', 3),
             (''multi_select'', 4), (''date'', 5), (''date_time'', 5), (''checkbox'', 7),
             (''member'', 11), (''phone'', 13), (''url'', 15), (''email'', 23),
             (''currency'', 25), (''rating'', 26)]"
  shows "\<exists>p. typeMap options (ascii name) = Mapping p \<and> type_code p = n"
  using assms by (auto simp add: typeMap_def)

lemma getFieldProperty_type_code:
  assumes "(name, n) \<in> set [(''text'', 1), (''number'', 2), (''single_select'', 3),
             (''multi_select'', 4), (''date'', 5), (''date_time'', 5), (''checkbox'', 7),
             (''member'', 11), (''phone'', 13), (''url'', 15), (''email'', 23),
             (''currency'', 25), (''rating'', 26)]"
    and "toLowerCase t = ascii name"
  shows "\<exists>p. getFieldProperty t options = Mapping p \<and> type_code p = n"
proof (cases "(t = ascii ''single_select'' \<or> t = ascii ''multi_select'') \<and> getOptions options = []")
  case False
  with typeMap_type_code [OF assms(1), of options] assms(2) show ?thesis
    by (simp only: getFieldProperty_unfold if_False)
next
  case True
  then have "toLowerCase t = ascii ''single_select'' \<and> t = ascii ''single_select''
             \<or> toLowerCase t = ascii ''multi_select'' \<and> t = ascii ''multi_select''"
    by (auto simp add: lower_unit_def)
  with assms have "t = ascii ''single_select'' \<and> n = 3 \<or> t = ascii ''multi_select'' \<and> n = 4"
    by auto
  with True show ?thesis
    by (auto simp add: getFieldProperty_unfold)
qed

lemma getFieldProperty_date_formats:
  "toLowerCase t = ascii ''date'' \<Longrightarrow>
     getFieldProperty t options
       = Mapping \<lparr>type_code = 5, property = Some (Date_formatter (ascii ''yyyy/MM/dd''))\<rparr>"
  "toLowerCase t = ascii ''date_time'' \<Longrightarrow>
     getFieldProperty t options
       = Mapping \<lparr>type_code = 5, property = Some (Date_formatter (ascii ''yyyy/MM/dd HH:mm''))\<rparr>"
  by (auto simp add: getFieldProperty_unfold typeMap_def lower_unit_def)

text \<open>
  Every other name is answered with \<open>undefined\<close>, unless its lower-case form is
  \<open>constructor\<close> or \<open>__proto__\<close>.
\<close>

lemma getFieldProperty_unsupported:
  assumes "toLowerCase t \<notin> set (map ascii [''text'', ''number'', ''single_select'',
             ''multi_select'', ''date'', ''date_time'', ''checkbox'', ''member'', ''phone'',
             ''url'', ''email'', ''currency'', ''rating''])"
    and "toLowerCase t \<noteq> ascii ''constructor''" and "toLowerCase t \<noteq> ascii ''__proto__''"
  shows "getFieldProperty t options = Undefined"
  using assms by (auto simp add: getFieldProperty_unfold typeMap_def lower_unit_def)

text \<open>
  For the names written exactly as in the table, a select field without usable options
  receives the three default options.
\<close>

lemma getFieldProperty_exact_select_default:
  assumes "type = ascii ''single_select'' \<or> type = ascii ''multi_select''"
    and "getOptions options = []"
  shows "\<exists>p. getFieldProperty type options = Mapping p
             \<and> property p = Some (Options default_options) \<and> default_options \<noteq> []"
  using assms
  by (auto simp add: getFieldProperty_def typeMap_def lower_unit_def default_options_def)

text \<open>
  C5. The claim: a type name that matches \<open>single_select\<close> or \<open>multi_select\<close>
  case-insensitively, with an empty or missing option string, is mapped to a payload
  with the three default options, never to an empty option list. The source at the name
  \<open>SINGLE_SELECT\<close> without options: the lookup is made with the lower-cased name and
  finds the \<open>single_select\<close> entry, the test for the default compares the name as given,
  and the payload keeps its empty option list.
\<close>

theorem C5_upper_case_select_keeps_empty_options:
  "toLowerCase (ascii ''SINGLE_SELECT'') = ascii ''single_select''
   \<and> getFieldProperty (ascii ''SINGLE_SELECT'') Map.empty
       = Mapping \<lparr>type_code = 3, property = Some (Options [])\<rparr>"
  by (simp add: getFieldProperty_def typeMap_def lower_unit_def getOptions_def)

text \<open>
  C6. The claim: every supported name (case-insensitively) receives its type code, and
  every name outside the enumeration receives the no-mapping signal. The first half holds
  (\<open>getFieldProperty_type_code\<close>, \<open>getFieldProperty_date_formats\<close>). The source at the
  name \<open>constructor\<close>, which is outside the enumeration: the lookup in the object literal
  finds the member inherited from \<open>Object.prototype\<close>, and the result is not \<open>undefined\<close>.
\<close>

theorem C6_constructor_is_not_undefined:
  "toLowerCase (ascii ''constructor'')
     \<notin> set (map ascii [''text'', ''number'', ''single_select'', ''multi_select'', ''date'',
          ''date_time'', ''checkbox'', ''member'', ''phone'', ''url'', ''email'', ''currency'',
          ''rating''])
   \<and> getFieldProperty (ascii ''constructor'') Map.empty
       = Prototype_member (ascii ''constructor'')
   \<and> getFieldProperty (ascii ''constructor'') Map.empty \<noteq> Undefined"
  by (simp add: getFieldProperty_def typeMap_def lower_unit_def)

section \<open>Properties of the sample data synthesizer\<close>

lemma selectOptions_ABC:
  "selectOptions [option_key \<mapsto> ascii ''A,B,C''] = [ascii ''A'', ascii ''B'', ascii ''C'']"
  by (simp add: selectOptions_def trim_def is_space_def)

text \<open>
  C3, as the claim states it: with the option string stored under the key of the
  specification, row 0 receives \<open>A\<close>. The source reads another key, finds no options and
  returns the fallback.
\<close>

theorem C3_spec_key_counterexample:
  "generateDummyData (ascii ''single_select'') [spec_option_key \<mapsto> ascii ''A,B,C''] 0
     = DStr (option_key @ ascii ''1'')
   \<and> generateDummyData (ascii ''single_select'') [spec_option_key \<mapsto> ascii ''A,B,C''] 0
     \<noteq> DStr (ascii ''A'')"
  by (simp add: generateDummyData_def selectOptions_def lower_unit_def option_key_def
      spec_option_key_def trim_def digits.simps)

text \<open>
  C3, amended: with the option string \<open>A,B,C\<close> stored under the key the source reads
  (\<open>option_key\<close>), the \<open>single_select\<close> synthesizer cycles through \<open>A\<close>, \<open>B\<close>, \<open>C\<close> with
  period 3; in general it returns the parsed option at position \<open>i mod n\<close> for \<open>n\<close>
  parsed options, and the fallback numbered \<open>i mod 3 + 1\<close> when there are none.
\<close>

theorem C3_single_select_cycles:
  assumes "toLowerCase type = ascii ''single_select''"
  shows "generateDummyData type [option_key \<mapsto> ascii ''A,B,C''] i
           = DStr ([ascii ''A'', ascii ''B'', ascii ''C''] ! (i mod 3))
         \<and> (selectOptions options \<noteq> [] \<longrightarrow>
              generateDummyData type options i
                = DStr (selectOptions options ! (i mod length (selectOptions options))))
         \<and> (selectOptions options = [] \<longrightarrow>
              generateDummyData type options i = DStr (option_key @ digits (i mod 3 + 1)))"
  using assms selectOptions_ABC by (simp add: generateDummyData_def Let_def)

theorem C3_single_select_cycles_witness:
  "toLowerCase (ascii ''single_select'') = ascii ''single_select''
   \<and> generateDummyData (ascii ''single_select'') [option_key \<mapsto> ascii ''A,B,C''] 0
       = DStr (ascii ''A'')
   \<and> generateDummyData (ascii ''single_select'') [option_key \<mapsto> ascii ''A,B,C''] 1
       = DStr (ascii ''B'')
   \<and> generateDummyData (ascii ''single_select'') [option_key \<mapsto> ascii ''A,B,C''] 2
       = DStr (ascii ''C'')
   \<and> generateDummyData (ascii ''single_select'') [option_key \<mapsto> ascii ''A,B,C''] 3
       = DStr (ascii ''A'')
   \<and> generateDummyData (ascii ''single_select'') Map.empty 4
       = DStr (option_key @ ascii ''2'')"
proof -
  have h: "toLowerCase (ascii ''single_select'') = ascii ''single_select''"
    by (simp add: lower_unit_def)
  have e: "selectOptions Map.empty = []"
    by (simp add: selectOptions_def trim_def)
  show ?thesis
    using h e
      C3_single_select_cycles [OF h, of 0 Map.empty]
      C3_single_select_cycles [OF h, of 1 Map.empty]
      C3_single_select_cycles [OF h, of 2 Map.empty]
      C3_single_select_cycles [OF h, of 3 Map.empty]
      C3_single_select_cycles [OF h, of 4 Map.empty]
    by (simp add: digits.simps)
qed

section \<open>Properties of the remote API client\<close>

lemma fetches_simps [simp]:
  "fetches [] = 0"
  "fetches (sent req tr) = Suc (fetches tr)"
  "fetches (sleep ms tr) = fetches tr"
  "fetches (tr @ tr') = fetches tr + fetches tr'"
  "fetches (Fetch req # tr) = Suc (fetches tr)"
  "fetches (Sleep ms # tr) = fetches tr"
  by (simp_all add: fetches_def sent_def sleep_def)

text \<open>A call only appends to the trace, and every fetch it makes is its own request.\<close>

lemma apiCall_attempts_extends:
  "\<exists>evs. snd (apiCall_attempts net req retries attempt tr) = tr @ evs
         \<and> (\<forall>ev\<in>set evs. ev = Fetch req \<or> \<not> is_fetch ev)"
proof (induction net req retries attempt tr rule: apiCall_attempts.induct)
  case (1 net req retries attempt tr)
  show ?case
  proof (cases "attempt \<le> retries")
    case False
    then show ?thesis by (subst apiCall_attempts.simps) simp
  next
    case True
    show ?thesis
    proof (cases "apiCall_try retries attempt (fetch net req tr)")
      case (Returned json)
      with True show ?thesis
        by (subst apiCall_attempts.simps) (simp add: sent_def)
    next
      case (Continue waitTime)
      from "1.IH"(2) [OF True Continue] obtain evs where
        "snd (apiCall_attempts net req retries (attempt + 1) (sleep waitTime (sent req tr)))
           = sleep waitTime (sent req tr) @ evs"
        "\<forall>ev\<in>set evs. ev = Fetch req \<or> \<not> is_fetch ev"
        by blast
      with True Continue show ?thesis
        by (subst apiCall_attempts.simps) (simp add: sent_def sleep_def)
    next
      case (Caught e)
      show ?thesis
      proof (cases "attempt = retries")
        case True
        with Caught \<open>attempt \<le> retries\<close> show ?thesis
          by (subst apiCall_attempts.simps) (simp add: sent_def)
      next
        case False
        from "1.IH"(1) [OF True Caught False] obtain evs where
          "snd (apiCall_attempts net req retries (attempt + 1)
                  (sleep (1000 * attempt) (sent req tr)))
             = sleep (1000 * attempt) (sent req tr) @ evs"
          "\<forall>ev\<in>set evs. ev = Fetch req \<or> \<not> is_fetch ev"
          by blast
        with True False Caught show ?thesis
          by (subst apiCall_attempts.simps) (simp add: sent_def sleep_def)
      qed
    qed
  qed
qed

lemma apiCall_extends:
  "\<exists>evs. snd (apiCall net req retries tr) = tr @ evs
         \<and> (\<forall>ev\<in>set evs. ev = Fetch req \<or> \<not> is_fetch ev)"
  unfolding apiCall_def by (rule apiCall_attempts_extends)

text \<open>
  The waits of one pass: a rate-limited response waits \<open>1000 * 2 ^ attempt\<close>, the
  \<open>catch\<close> clause waits \<open>1000 * attempt\<close>; on the last attempt an error that reaches the
  \<open>catch\<close> clause is thrown to the caller.
\<close>

lemma apiCall_try_rate_limited:
  "apiCall_try retries attempt (Response 429 b) = Continue (1000 * 2 ^ attempt)"
  by (simp add: apiCall_try_def ok_def)

lemma apiCall_last_attempt_throws:
  assumes "apiCall_try retries retries (fetch net req tr) = Caught e" and "0 < retries"
  shows "apiCall_attempts net req retries retries tr = (Throw e, sent req tr)"
  using assms by (subst apiCall_attempts.simps) simp

text \<open>
  C2. The claim: when all attempts of \<open>apiCall\<close> fail, also when every attempt receives
  HTTP 429, the call throws the last error. The source with the default of three retries
  and status 429 on every attempt: each pass sleeps (2000, 4000, 8000 ms) and continues,
  the loop ends, and the call returns \<open>undefined\<close> without throwing.
\<close>

theorem C2_all_rate_limited_returns_undefined:
  "apiCall (\<lambda>n r. Response 429 Unreadable) req 3 []
     = (Return None, [Fetch req, Sleep 2000, Fetch req, Sleep 4000, Fetch req, Sleep 8000])"
  by (simp add: apiCall_def apiCall_attempts.simps apiCall_try_def fetch_def sent_def
      sleep_def ok_def)

section \<open>Properties of the schema generator\<close>

lemma parse_text_direct:
  assumes "JSON_parse rawText = Some (Truthy v)"
  shows "parse_text JSON_parse rawText = Inr v"
  using assms by (simp add: parse_text_def method1_def)

lemma parse_text_fenced:
  assumes "JSON_parse rawText = None" and "json_fence rawText = Some captured"
    and "JSON_parse captured = Some (Truthy v)" and "captured \<noteq> []"
  shows "parse_text JSON_parse rawText = Inr v"
  using assms by (simp add: parse_text_def method1_def method2_def)

lemma parse_text_fence_unparsable:
  assumes "JSON_parse rawText = None" and "json_fence rawText = Some captured"
    and "JSON_parse captured = None" and "captured \<noteq> []"
  shows "parse_text JSON_parse rawText
           = (case method3 JSON_parse rawText of
                Inl e \<Rightarrow> Inl e
              | Inr Falsy \<Rightarrow> Inl No_valid_json
              | Inr (Truthy v) \<Rightarrow> Inr v)"
  using assms by (simp add: parse_text_def method1_def method2_def)

text \<open>
  Without a fenced block method 2 throws nothing, so method 3 is never entered, whatever
  the text holds between its braces.
\<close>

lemma parse_text_no_fence:
  assumes "JSON_parse rawText = None" and "json_fence rawText = None"
  shows "parse_text JSON_parse rawText = Inl No_valid_json"
  using assms by (simp add: parse_text_def method1_def method2_def)

text \<open>
  C1. The claim: the three strategies are tried in order, and the third (first \<open>{\<close> to
  last \<open>}\<close>) is attempted whenever the first two fail. The source at the text
  \<open>Result: \<close> followed by a schema document, with no fenced block: parsing the whole text
  fails, no fence is found, and the attempt ends as a parse failure, although method 3 on
  this text yields the schema.
\<close>

theorem C1_braces_without_fence_not_tried:
  "json_fence (ascii ''Result: '' @ schema_text) = None
   \<and> method3 [schema_text \<mapsto> Truthy schema_value] (ascii ''Result: '' @ schema_text)
       = Inr (Truthy schema_value)
   \<and> parse_text [schema_text \<mapsto> Truthy schema_value] (ascii ''Result: '' @ schema_text)
       = Inl No_valid_json"
  by (simp add: parse_text_def method1_def method2_def method3_def schema_text_def
      indexOf_def lastIndexOf_def substring_def fence_def)

text \<open>
  The loop of \<open>generateSchemaFromAI\<close>, started at any attempt: when the attempts before
  \<open>j\<close> fail and attempt \<open>j\<close> succeeds, and when all attempts up to the fifth fail.
\<close>

lemma generate_attempts_success:
  assumes "attempt \<le> j" and "j \<le> 5"
    and "\<forall>a. attempt \<le> a \<and> a < j \<longrightarrow>
           isl (generate_try JSON_parse a (net (fetches tr + (a - attempt)) req))"
    and "generate_try JSON_parse j (net (fetches tr + (j - attempt)) req) = Inr s"
  shows "generate_attempts net JSON_parse req attempt lastError tr
           = (Return s,
              tr @ concat (map (\<lambda>a. [Fetch req, Sleep (1000 * 2 ^ (a - 1))]) [attempt ..< j])
                 @ [Fetch req])"
  using assms
proof (induction "j - attempt" arbitrary: attempt tr lastError)
  case 0
  then have "attempt = j" by simp
  with 0 show ?case
    by (subst generate_attempts.simps) (simp add: fetch_def sent_def)
next
  case (Suc n)
  then have lt: "attempt < j" and le5: "attempt < 5" by simp_all
  from Suc.prems(3) lt obtain e where
    e: "generate_try JSON_parse attempt (net (fetches tr) req) = Inl e"
    by (metis add.right_neutral diff_self_eq_0 isl_def order_refl)
  let ?tr = "sleep (1000 * 2 ^ (attempt - 1)) (sent req tr)"
  have f: "fetches ?tr = Suc (fetches tr)" by simp
  have "generate_attempts net JSON_parse req (attempt + 1) (Some e) ?tr
          = (Return s,
              ?tr @ concat (map (\<lambda>a. [Fetch req, Sleep (1000 * 2 ^ (a - 1))])
                              [attempt + 1 ..< j])
                 @ [Fetch req])"
  proof (rule Suc.hyps(1))
    show "n = j - (attempt + 1)" using Suc.hyps(2) by simp
    show "attempt + 1 \<le> j" using lt by simp
    show "j \<le> 5" by fact
    show "\<forall>a. attempt + 1 \<le> a \<and> a < j \<longrightarrow>
           isl (generate_try JSON_parse a (net (fetches ?tr + (a - (attempt + 1))) req))"
    proof (intro allI impI)
      fix a assume a: "attempt + 1 \<le> a \<and> a < j"
      have g: "fetches ?tr + (a - (attempt + 1)) = fetches tr + (a - attempt)"
        unfolding f using a by arith
      show "isl (generate_try JSON_parse a (net (fetches ?tr + (a - (attempt + 1))) req))"
        unfolding g using Suc.prems(3) a by simp
    qed
    have g: "fetches ?tr + (j - (attempt + 1)) = fetches tr + (j - attempt)"
      unfolding f using lt by arith
    show "generate_try JSON_parse j (net (fetches ?tr + (j - (attempt + 1))) req) = Inr s"
      unfolding g by (rule Suc.prems(4))
  qed
  with e le5 lt show ?case
    by (subst generate_attempts.simps) (simp add: fetch_def sent_def sleep_def upt_conv_Cons)
qed

lemma generate_attempts_failure:
  assumes "attempt \<le> 5"
    and "\<forall>a. attempt \<le> a \<and> a \<le> 5 \<longrightarrow>
           generate_try JSON_parse a (net (fetches tr + (a - attempt)) req) = Inl (err a)"
  shows "generate_attempts net JSON_parse req attempt lastError tr
           = (Throw (Ai_processing_failed (err 5)),
              tr @ concat (map (\<lambda>a. [Fetch req, Sleep (1000 * 2 ^ (a - 1))]) [attempt ..< 5])
                 @ [Fetch req])"
  using assms
proof (induction "5 - attempt" arbitrary: attempt tr lastError)
  case 0
  then have "attempt = 5" by simp
  with 0 show ?case
    by (subst generate_attempts.simps, subst generate_attempts.simps)
      (simp add: fetch_def sent_def)
next
  case (Suc n)
  then have lt: "attempt < 5" by simp
  from Suc.prems(2) lt have
    e: "generate_try JSON_parse attempt (net (fetches tr) req) = Inl (err attempt)"
    by (metis add.right_neutral diff_self_eq_0 less_imp_le order_refl)
  let ?tr = "sleep (1000 * 2 ^ (attempt - 1)) (sent req tr)"
  have f: "fetches ?tr = Suc (fetches tr)" by simp
  have "generate_attempts net JSON_parse req (attempt + 1) (Some (err attempt)) ?tr
          = (Throw (Ai_processing_failed (err 5)),
              ?tr @ concat (map (\<lambda>a. [Fetch req, Sleep (1000 * 2 ^ (a - 1))])
                              [attempt + 1 ..< 5])
                 @ [Fetch req])"
  proof (rule Suc.hyps(1))
    show "n = 5 - (attempt + 1)" using Suc.hyps(2) by simp
    show "attempt + 1 \<le> 5" using lt by simp
    show "\<forall>a. attempt + 1 \<le> a \<and> a \<le> 5 \<longrightarrow>
           generate_try JSON_parse a (net (fetches ?tr + (a - (attempt + 1))) req)
             = Inl (err a)"
    proof (intro allI impI)
      fix a assume a: "attempt + 1 \<le> a \<and> a \<le> 5"
      have g: "fetches ?tr + (a - (attempt + 1)) = fetches tr + (a - attempt)"
        unfolding f using a by arith
      show "generate_try JSON_parse a (net (fetches ?tr + (a - (attempt + 1))) req)
              = Inl (err a)"
        unfolding g using Suc.prems(2) a by simp
    qed
  qed
  with e lt show ?case
    by (subst generate_attempts.simps) (simp add: fetch_def sent_def sleep_def upt_conv_Cons)
qed

text \<open>
  C7. With an API key configured: when every attempt fails, \<open>generateSchemaFromAI\<close> makes
  exactly five requests, waits 1000, 2000, 4000 and 8000 ms between them (each wait twice
  the one before) and then throws its final error, which wraps the error of the fifth
  attempt; when attempt \<open>j\<close> is the first that yields a valid schema, it returns that schema
  after exactly \<open>j\<close> requests.
\<close>

theorem C7_five_attempts_doubling_backoff:
  assumes "key \<noteq> []"
  shows "((\<forall>a. 1 \<le> a \<and> a \<le> 5 \<longrightarrow>
             generate_try JSON_parse a (net (fetches tr + (a - 1)) (Generate key prompt))
               = Inl (err a)) \<longrightarrow>
          generateSchemaFromAI net JSON_parse prompt (Some key) tr
            = (Throw (Ai_processing_failed (err 5)),
               tr @ [Fetch (Generate key prompt), Sleep 1000,
                     Fetch (Generate key prompt), Sleep 2000,
                     Fetch (Generate key prompt), Sleep 4000,
                     Fetch (Generate key prompt), Sleep 8000,
                     Fetch (Generate key prompt)]))
       \<and> (1 \<le> j \<and> j \<le> 5
          \<and> (\<forall>a. 1 \<le> a \<and> a < j \<longrightarrow>
                isl (generate_try JSON_parse a
                       (net (fetches tr + (a - 1)) (Generate key prompt))))
          \<and> generate_try JSON_parse j (net (fetches tr + (j - 1)) (Generate key prompt))
               = Inr s \<longrightarrow>
          generateSchemaFromAI net JSON_parse prompt (Some key) tr
            = (Return s,
               tr @ concat (map (\<lambda>a. [Fetch (Generate key prompt), Sleep (1000 * 2 ^ (a - 1))])
                              [1 ..< j])
                  @ [Fetch (Generate key prompt)]))"
proof (intro conjI impI)
  assume "\<forall>a. 1 \<le> a \<and> a \<le> 5 \<longrightarrow>
            generate_try JSON_parse a (net (fetches tr + (a - 1)) (Generate key prompt))
              = Inl (err a)"
  then have "generate_attempts net JSON_parse (Generate key prompt) 1 None tr
               = (Throw (Ai_processing_failed (err 5)),
                  tr @ concat (map (\<lambda>a. [Fetch (Generate key prompt),
                                           Sleep (1000 * 2 ^ (a - 1))]) [1 ..< 5])
                     @ [Fetch (Generate key prompt)])"
    by (rule generate_attempts_failure [rotated]) simp
  with assms show "generateSchemaFromAI net JSON_parse prompt (Some key) tr
            = (Throw (Ai_processing_failed (err 5)),
               tr @ [Fetch (Generate key prompt), Sleep 1000,
                     Fetch (Generate key prompt), Sleep 2000,
                     Fetch (Generate key prompt), Sleep 4000,
                     Fetch (Generate key prompt), Sleep 8000,
                     Fetch (Generate key prompt)])"
    by (simp add: generateSchemaFromAI_def upt_conv_Cons)
next
  assume a: "1 \<le> j \<and> j \<le> 5
          \<and> (\<forall>a. 1 \<le> a \<and> a < j \<longrightarrow>
                isl (generate_try JSON_parse a
                       (net (fetches tr + (a - 1)) (Generate key prompt))))
          \<and> generate_try JSON_parse j (net (fetches tr + (j - 1)) (Generate key prompt))
               = Inr s"
  then have "1 \<le> j" and "j \<le> 5"
    and "\<forall>a. 1 \<le> a \<and> a < j \<longrightarrow>
           isl (generate_try JSON_parse a (net (fetches tr + (a - 1)) (Generate key prompt)))"
    and "generate_try JSON_parse j (net (fetches tr + (j - 1)) (Generate key prompt)) = Inr s"
    by blast+
  then have "generate_attempts net JSON_parse (Generate key prompt) 1 None tr
               = (Return s,
                  tr @ concat (map (\<lambda>a. [Fetch (Generate key prompt),
                                           Sleep (1000 * 2 ^ (a - 1))]) [1 ..< j])
                     @ [Fetch (Generate key prompt)])"
    by (rule generate_attempts_success)
  with assms show "generateSchemaFromAI net JSON_parse prompt (Some key) tr
            = (Return s,
               tr @ concat (map (\<lambda>a. [Fetch (Generate key prompt), Sleep (1000 * 2 ^ (a - 1))])
                              [1 ..< j])
                  @ [Fetch (Generate key prompt)])"
    by (simp add: generateSchemaFromAI_def)
qed

theorem C7_five_attempts_doubling_backoff_witness:
  "generateSchemaFromAI (\<lambda>n r. Response 503 Unreadable) Map.empty (ascii ''crm'')
       (Some (ascii ''k'')) []
     = (Throw (Ai_processing_failed (Gemini_http_error 503)),
        [Fetch (Generate (ascii ''k'') (ascii ''crm'')), Sleep 1000,
         Fetch (Generate (ascii ''k'') (ascii ''crm'')), Sleep 2000,
         Fetch (Generate (ascii ''k'') (ascii ''crm'')), Sleep 4000,
         Fetch (Generate (ascii ''k'') (ascii ''crm'')), Sleep 8000,
         Fetch (Generate (ascii ''k'') (ascii ''crm''))])
   \<and> generateSchemaFromAI (\<lambda>n r. if n = 1 then text_reply schema_text else Rejected)
       [schema_text \<mapsto> Truthy schema_value] (ascii ''crm'') (Some (ascii ''k'')) []
     = (Return schema_value,
        [Fetch (Generate (ascii ''k'') (ascii ''crm'')), Sleep 1000,
         Fetch (Generate (ascii ''k'') (ascii ''crm''))])"
proof -
  have k: "ascii ''k'' \<noteq> []" by simp
  have v: "validate schema_value = Inr schema_value"
    by (simp add: validate_def schema_value_def)
  have p: "parse_text [schema_text \<mapsto> Truthy schema_value] schema_text = Inr schema_value"
    by (simp add: parse_text_direct)
  have t: "schema_text \<noteq> []" by (simp add: schema_text_def)
  have ok200: "ok 200" by (simp add: ok_def)
  show ?thesis
    using
      C7_five_attempts_doubling_backoff [OF k, of Map.empty "\<lambda>n r. Response 503 Unreadable"
        "[]" "ascii ''crm''" "\<lambda>a. Gemini_http_error 503" 1 schema_value]
      C7_five_attempts_doubling_backoff [OF k, of "[schema_text \<mapsto> Truthy schema_value]"
        "\<lambda>n r. if n = 1 then text_reply schema_text else Rejected"
        "[]" "ascii ''crm''" "\<lambda>a. Network_error" 2 schema_value]
    by (simp add: generate_try_def ok_def text_reply_def p v t upt_conv_Cons)
qed

section \<open>Properties of the sample records\<close>

text \<open>
  The keys of a row: the names, other than \<open>__proto__\<close>, of the fields that gave a value
  other than \<open>null\<close>.
\<close>

lemma dom_assign:
  "dom (assign obj key v) = (if key = ascii ''__proto__'' then dom obj else insert key (dom obj))"
  by (simp add: assign_def)

lemma dom_foldl:
  assumes "\<And>acc x. dom (step acc x) = dom acc \<union> keys x"
  shows "dom (foldl step acc xs) = dom acc \<union> (\<Union>x\<in>set xs. keys x)"
  by (induction xs arbitrary: acc) (auto simp add: assms)

lemma dom_recordFields:
  "dom (recordFields fs i)
   = {field_name f |f. f \<in> set fs
        \<and> generateDummyData (field_type f) (field_options f) i \<noteq> DNull
        \<and> field_name f \<noteq> ascii ''__proto__''}"
proof -
  let ?keys = "\<lambda>f. if generateDummyData (field_type f) (field_options f) i \<noteq> DNull
                       \<and> field_name f \<noteq> ascii ''__proto__''
                    then {field_name f} else {}"
  have "dom (recordFields fs i) = dom (Map.empty :: row) \<union> (\<Union>f\<in>set fs. ?keys f)"
    unfolding recordFields_def
    by (rule dom_foldl) (simp add: Let_def dom_assign)
  then show ?thesis by (auto split: if_splits)
qed

lemma recordFields_all_null:
  assumes "\<forall>f\<in>set fs. generateDummyData (field_type f) (field_options f) i = DNull"
  shows "dom (recordFields fs i) = {}"
  using assms by (auto simp add: dom_recordFields)

lemma recordFields_kept:
  assumes "dom (recordFields fs i) \<noteq> {}"
  shows "\<exists>f\<in>set fs. generateDummyData (field_type f) (field_options f) i \<noteq> DNull"
  using assms recordFields_all_null by blast

text \<open>The first loop keeps the rows of the indices whose object has a key, in order.\<close>

lemma build_records_filter:
  "build_records fs n
     = map (recordFields fs) (filter (\<lambda>i. dom (recordFields fs i) \<noteq> {}) [0 ..< n])"
  by (induction n) (simp_all add: build_records_def Let_def)

text \<open>The second loop only appends to the trace, and what it fetches are slices of its rows.\<close>

lemma insert_batches_extends:
  "\<exists>evs. snd (insert_batches net token appToken tid rows i acc tr) = tr @ evs
         \<and> (\<forall>ev\<in>set evs. is_fetch ev \<longrightarrow>
               (\<exists>k. ev = Fetch (Batch_create token appToken tid (take 10 (drop k rows)))))"
proof (induction "length rows - i" arbitrary: i acc tr rule: less_induct)
  case less
  show ?case
  proof (cases "i < length rows")
    case False
    then show ?thesis by (subst insert_batches.simps) simp
  next
    case True
    let ?req = "Batch_create token appToken tid (take 10 (drop i rows))"
    obtain x tr1 where call: "apiCall net ?req 3 tr = (x, tr1)"
      by (cases "apiCall net ?req 3 tr")
    from apiCall_extends [of net ?req 3 tr] call obtain evs1 where
      tr1: "tr1 = tr @ evs1" and evs1: "\<forall>ev\<in>set evs1. ev = Fetch ?req \<or> \<not> is_fetch ev"
      by auto
    have step: "\<exists>evs. snd (insert_batches net token appToken tid rows (i + 10) acc' tr') = tr' @ evs
         \<and> (\<forall>ev\<in>set evs. is_fetch ev \<longrightarrow>
               (\<exists>k. ev = Fetch (Batch_create token appToken tid (take 10 (drop k rows)))))"
      for acc' tr'
      using True by (intro less) simp
    have rest: "\<exists>evs. snd (insert_batches net token appToken tid rows (i + 10) acc' (tr1 @ more))
                       = tr @ evs
         \<and> (\<forall>ev\<in>set evs. is_fetch ev \<longrightarrow>
               (\<exists>k. ev = Fetch (Batch_create token appToken tid (take 10 (drop k rows)))))"
      if "\<forall>ev\<in>set more. \<not> is_fetch ev" for acc' more
    proof -
      from step [of acc' "tr1 @ more"] obtain evs where
        e: "snd (insert_batches net token appToken tid rows (i + 10) acc' (tr1 @ more))
              = (tr1 @ more) @ evs"
        and f: "\<forall>ev\<in>set evs. is_fetch ev \<longrightarrow>
               (\<exists>k. ev = Fetch (Batch_create token appToken tid (take 10 (drop k rows))))"
        by blast
      have "snd (insert_batches net token appToken tid rows (i + 10) acc' (tr1 @ more))
              = tr @ (evs1 @ more @ evs)"
        using e tr1 by simp
      moreover have "\<forall>ev\<in>set (evs1 @ more @ evs). is_fetch ev \<longrightarrow>
               (\<exists>k. ev = Fetch (Batch_create token appToken tid (take 10 (drop k rows))))"
        using evs1 f that by auto
      ultimately show ?thesis by blast
    qed
    show ?thesis
    proof (cases x)
      case (Throw e)
      with True call rest [of "[]" acc] show ?thesis
        by (subst insert_batches.simps) simp
    next
      case (Return r)
      show ?thesis
      proof (cases r)
        case None
        with Return True call rest [of "[]" acc] show ?thesis
          by (subst insert_batches.simps) simp
      next
        case (Some result)
        show ?thesis
        proof (cases "i + 10 < length rows")
          case False
          with Some Return True call rest [of "[]"] show ?thesis
            by (subst insert_batches.simps) simp
        next
          case lt: True
          with Some Return True call rest [of "[Sleep 500]"] show ?thesis
            by (subst insert_batches.simps) (simp add: sleep_def)
        qed
      qed
    qed
  qed
qed

text \<open>
  C8. A row in which every field gave \<open>null\<close> has no key, and the rows built for
  insertion are exactly the rows that have a key; every row of every \<open>batch_create\<close>
  request that \<open>addSampleRecords\<close> sends is the row of an index at which some field gave
  a value other than \<open>null\<close>; and when no row remains (in particular when every field
  gives \<open>null\<close> at every index), \<open>addSampleRecords\<close> sends no request (the trace is
  unchanged) and reports an empty list of inserted records.
\<close>

theorem C8_null_rows_not_submitted:
  "\<exists>evs. snd (addSampleRecords net token appToken tid fs count tr) = tr @ evs
     \<and> (\<forall>i. (\<forall>f\<in>set fs. generateDummyData (field_type f) (field_options f) i = DNull) \<longrightarrow>
            dom (recordFields fs i) = {})
     \<and> build_records fs (nat count)
         = map (recordFields fs) (filter (\<lambda>i. dom (recordFields fs i) \<noteq> {}) [0 ..< nat count])
     \<and> (\<forall>tok ap t batch row.
           Fetch (Batch_create tok ap t batch) \<in> set evs \<and> row \<in> set batch \<longrightarrow>
           (\<exists>i. int i < count \<and> row = recordFields fs i
                \<and> (\<exists>f\<in>set fs. generateDummyData (field_type f) (field_options f) i \<noteq> DNull)))
     \<and> (build_records fs (nat count) = [] \<longrightarrow>
         addSampleRecords net token appToken tid fs count tr = ([], tr))
     \<and> ((\<forall>i. int i < count \<longrightarrow>
            (\<forall>f\<in>set fs. generateDummyData (field_type f) (field_options f) i = DNull)) \<longrightarrow>
         addSampleRecords net token appToken tid fs count tr = ([], tr))"
proof -
  let ?nonnull = "\<lambda>i. \<exists>f\<in>set fs. generateDummyData (field_type f) (field_options f) i \<noteq> DNull"
  let ?rows = "build_records fs (nat count)"
  have null: "\<forall>i. (\<forall>f\<in>set fs. generateDummyData (field_type f) (field_options f) i = DNull) \<longrightarrow>
            dom (recordFields fs i) = {}"
    by (simp add: recordFields_all_null)
  have rows: "?rows = map (recordFields fs)
                        (filter (\<lambda>i. dom (recordFields fs i) \<noteq> {}) [0 ..< nat count])"
    by (rule build_records_filter)
  have member: "\<exists>i. int i < count \<and> row = recordFields fs i \<and> ?nonnull i"
    if "row \<in> set ?rows" for row
  proof -
    from that rows obtain i where i: "i < nat count" "dom (recordFields fs i) \<noteq> {}"
      "row = recordFields fs i"
      by auto
    from recordFields_kept [OF i(2)] have "?nonnull i" .
    with i show ?thesis by (intro exI [of _ i]) auto
  qed
  have empty: "addSampleRecords net token appToken tid fs count tr = ([], tr)" if "?rows = []"
    using that by (simp add: addSampleRecords_def)
  have none: "addSampleRecords net token appToken tid fs count tr = ([], tr)"
    if "\<forall>i. int i < count \<longrightarrow>
          (\<forall>f\<in>set fs. generateDummyData (field_type f) (field_options f) i = DNull)"
  proof -
    have "dom (recordFields fs i) = {}" if "i < nat count" for i
    proof (rule recordFields_all_null)
      from \<open>i < nat count\<close> have "int i < count" by simp
      with \<open>\<forall>i. int i < count \<longrightarrow>
          (\<forall>f\<in>set fs. generateDummyData (field_type f) (field_options f) i = DNull)\<close>
      show "\<forall>f\<in>set fs. generateDummyData (field_type f) (field_options f) i = DNull"
        by blast
    qed
    then have "filter (\<lambda>i. dom (recordFields fs i) \<noteq> {}) [0 ..< nat count] = []"
      by (simp only: filter_empty_conv set_upt) (metis atLeastLessThan_iff)
    with rows have "?rows = []" by simp
    then show ?thesis by (rule empty)
  qed
  show ?thesis
  proof (cases "count \<le> 0 \<or> length fs = 0 \<or> ?rows = []")
    case True
    then have "addSampleRecords net token appToken tid fs count tr = ([], tr)"
      by (auto simp add: addSampleRecords_def)
    with null rows none show ?thesis by (intro exI [of _ "[]"]) simp
  next
    case False
    then have run: "addSampleRecords net token appToken tid fs count tr
                 = insert_batches net token appToken tid ?rows 0 [] tr"
      by (simp add: addSampleRecords_def)
    from insert_batches_extends [of net token appToken tid ?rows 0 "[]" tr] obtain evs where
      evs: "snd (insert_batches net token appToken tid ?rows 0 [] tr) = tr @ evs"
      and fet: "\<forall>ev\<in>set evs. is_fetch ev \<longrightarrow>
               (\<exists>k. ev = Fetch (Batch_create token appToken tid (take 10 (drop k ?rows))))"
      by blast
    have sub: "\<exists>i. int i < count \<and> row = recordFields fs i \<and> ?nonnull i"
      if "Fetch (Batch_create tok ap t batch) \<in> set evs" "row \<in> set batch"
      for tok ap t batch row
    proof -
      from fet that(1) obtain k where "batch = take 10 (drop k ?rows)" by fastforce
      with that(2) have "row \<in> set ?rows"
        by (meson in_set_dropD in_set_takeD)
      then show ?thesis by (rule member)
    qed
    from False have ne: "?rows \<noteq> []" by simp
    from run evs null rows sub none ne show ?thesis
      by (intro exI [of _ evs]) (simp, blast)
  qed
qed

theorem C8_null_rows_not_submitted_witness:
  "build_records [text_field, formula_field] 2
     = [[ascii ''name'' \<mapsto> DStr (sample_label @ ascii ''1'')],
        [ascii ''name'' \<mapsto> DStr (sample_label @ ascii ''2'')]]
   \<and> build_records [formula_field] 3 = []
   \<and> addSampleRecords (\<lambda>n r. Rejected) None None None [formula_field] 3 [] = ([], [])
   \<and> build_records [proto_field] 2 = []
   \<and> addSampleRecords (\<lambda>n r. Rejected) None None None [proto_field] 2 [] = ([], [])"
proof -
  have none: "generateDummyData (field_type formula_field) (field_options formula_field) i = DNull"
    for i
    by (simp add: formula_field_def generateDummyData_def lower_unit_def)
  have some: "generateDummyData (field_type text_field) (field_options text_field) i
                = DStr (sample_label @ digits (i + 1))" for i
    by (simp add: text_field_def generateDummyData_def lower_unit_def)
  have proto: "recordFields [proto_field] i = Map.empty" for i
    by (simp add: recordFields_def proto_field_def assign_def Let_def)
  have two: "[0 ..< 2] = [0, 1]"
    by (simp add: upt_conv_Cons)
  from none some C8_null_rows_not_submitted [of "\<lambda>n r. Rejected" None None None
      "[text_field, formula_field]" 2 "[]"]
  have "build_records [text_field, formula_field] 2
     = [[ascii ''name'' \<mapsto> DStr (sample_label @ ascii ''1'')],
        [ascii ''name'' \<mapsto> DStr (sample_label @ ascii ''2'')]]"
    by (simp add: two recordFields_def assign_def digits.simps text_field_def formula_field_def)
  moreover
  from none C8_null_rows_not_submitted [of "\<lambda>n r. Rejected" None None None
      "[formula_field]" 3 "[]"]
  have "build_records [formula_field] 3 = []
     \<and> addSampleRecords (\<lambda>n r. Rejected) None None None [formula_field] 3 [] = ([], [])"
    by (simp add: formula_field_def)
  moreover
  from C8_null_rows_not_submitted [of "\<lambda>n r. Rejected" None None None "[proto_field]" 2 "[]"]
  have "build_records [proto_field] 2 = []
     \<and> addSampleRecords (\<lambda>n r. Rejected) None None None [proto_field] 2 [] = ([], [])"
    by (simp add: proto)
  ultimately show ?thesis by simp
qed

section \<open>Properties of the request handler\<close>

text \<open>\<open>trim\<close> leaves nothing exactly of the strings that consist of white space.\<close>

lemma trim_Nil_iff: "trim s = [] \<longleftrightarrow> (\<forall>c\<in>set s. is_space c)"
proof -
  have "dropWhile is_space (rev (dropWhile is_space s)) = [] \<longleftrightarrow> dropWhile is_space s = []"
  proof (cases "dropWhile is_space s")
    case Nil
    show ?thesis unfolding Nil by simp
  next
    case (Cons c cs)
    then have "\<not> is_space c" by (metis hd_dropWhile list.sel(1) list.distinct(1))
    with Cons show ?thesis by (auto simp add: dropWhile_append3)
  qed
  then show ?thesis by (simp add: trim_def dropWhile_eq_Nil_conv)
qed

text \<open>
  A schema that \<open>generateSchemaFromAI\<close> returns has passed \<open>validate\<close>, and the requests
  made for it are generation requests.
\<close>

lemma validate_Inr:
  assumes "validate v = Inr v'"
  shows "v' = v \<and> (\<exists>name ts. baseName v = Some name \<and> name \<noteq> [] \<and> tables v = Some ts \<and> ts \<noteq> [])"
  using assms by (auto simp add: validate_def split: option.splits if_splits)

lemma generate_try_Inr:
  assumes "generate_try JSON_parse attempt resp = Inr v"
  shows "\<exists>name ts. baseName v = Some name \<and> name \<noteq> [] \<and> tables v = Some ts \<and> ts \<noteq> []"
  using assms validate_Inr
  by (auto simp add: generate_try_def
      split: response.splits body.splits option.splits if_splits sum.splits)

lemma generate_attempts_Return:
  assumes "generate_attempts net JSON_parse req attempt lastError tr = (Return v, tr')"
  shows "(\<exists>name ts. baseName v = Some name \<and> name \<noteq> [] \<and> tables v = Some ts \<and> ts \<noteq> [])
         \<and> (\<exists>evs. tr' = tr @ evs \<and> (\<forall>ev\<in>set evs. ev = Fetch req \<or> \<not> is_fetch ev))"
  using assms
proof (induction net JSON_parse req attempt lastError tr rule: generate_attempts.induct)
  case (1 net JSON_parse req attempt lastError tr)
  show ?case
  proof (cases "attempt \<le> 5")
    case False
    with "1.prems" show ?thesis
      by (subst (asm) generate_attempts.simps) (simp split: option.splits)
  next
    case True
    show ?thesis
    proof (cases "generate_try JSON_parse attempt (fetch net req tr)")
      case (Inr parsedData)
      with True "1.prems" have "parsedData = v" "tr' = sent req tr"
        by (subst (asm) generate_attempts.simps, simp)+
      with Inr generate_try_Inr [of JSON_parse attempt "fetch net req tr" v] show ?thesis
        by (simp add: sent_def)
    next
      case (Inl e)
      let ?tr = "if attempt < 5 then sleep (1000 * 2 ^ (attempt - 1)) (sent req tr)
                 else sent req tr"
      from True Inl "1.prems" have
        "generate_attempts net JSON_parse req (attempt + 1) (Some e) ?tr = (Return v, tr')"
        by (subst (asm) generate_attempts.simps) simp
      from "1.IH" [OF True Inl this] obtain evs where
        "\<exists>name ts. baseName v = Some name \<and> name \<noteq> [] \<and> tables v = Some ts \<and> ts \<noteq> []"
        "tr' = ?tr @ evs" "\<forall>ev\<in>set evs. ev = Fetch req \<or> \<not> is_fetch ev"
        by blast
      then show ?thesis
        by (auto simp add: sent_def sleep_def)
    qed
  qed
qed

text \<open>
  C9. \<open>handleApiPost\<close> answers with status 500 and an error body: (a) for a prompt that
  is empty or consists of white space, and (b) for a prompt of more than 2000 code units,
  in both cases with an empty trace, that is before any request; (c) for a generated
  schema of more than ten tables, with a trace that holds generation requests only, that
  is before any request to the workspace.
\<close>

theorem C9_validation_rejects_before_calls:
  "((\<forall>c\<in>set prompt. is_space c) \<longrightarrow>
      handleApiPost net JSON_parse env (Prompt (Some prompt))
        = (Post_response 500 (Error_body Prompt_required), []))
   \<and> (length prompt > 2000 \<longrightarrow>
        handleApiPost net JSON_parse env (Prompt (Some prompt))
          = (Post_response 500
               (Error_body (if \<forall>c\<in>set prompt. is_space c then Prompt_required
                            else Prompt_too_long)), []))
   \<and> (\<not> (\<forall>c\<in>set prompt. is_space c) \<and> length prompt \<le> 2000
        \<and> generateSchemaFromAI net JSON_parse prompt (GEMINI_API_KEY env) [] = (Return ai, tr)
        \<and> tables ai = Some ts \<and> length ts > 10 \<longrightarrow>
        handleApiPost net JSON_parse env (Prompt (Some prompt))
          = (Post_response 500 (Error_body Too_many_tables), tr)
        \<and> (\<forall>ev\<in>set tr. is_fetch ev \<longrightarrow> (\<exists>key. ev = Fetch (Generate key prompt))))"
proof (intro conjI impI)
  assume "\<forall>c\<in>set prompt. is_space c"
  then have "trim prompt = []" by (simp add: trim_Nil_iff)
  then show "handleApiPost net JSON_parse env (Prompt (Some prompt))
        = (Post_response 500 (Error_body Prompt_required), [])"
    by (simp add: handleApiPost_def handle_try_def)
next
  assume "length prompt > 2000"
  then show "handleApiPost net JSON_parse env (Prompt (Some prompt))
          = (Post_response 500
               (Error_body (if \<forall>c\<in>set prompt. is_space c then Prompt_required
                            else Prompt_too_long)), [])"
    using trim_Nil_iff [of prompt] by (auto simp add: handleApiPost_def handle_try_def)
next
  assume a: "\<not> (\<forall>c\<in>set prompt. is_space c) \<and> length prompt \<le> 2000
        \<and> generateSchemaFromAI net JSON_parse prompt (GEMINI_API_KEY env) [] = (Return ai, tr)
        \<and> tables ai = Some ts \<and> length ts > 10"
  then have valid: "prompt \<noteq> []" "trim prompt \<noteq> []" "\<not> length prompt > 2000"
    using trim_Nil_iff [of prompt] by auto
  from a obtain key where key: "GEMINI_API_KEY env = Some key" "key \<noteq> []"
    and run: "generate_attempts net JSON_parse (Generate key prompt) 1 None [] = (Return ai, tr)"
    by (auto simp add: generateSchemaFromAI_def split: option.splits if_splits)
  from generate_attempts_Return [OF run] obtain name where
    name: "baseName ai = Some name" "name \<noteq> []"
    and evs: "\<forall>ev\<in>set tr. ev = Fetch (Generate key prompt) \<or> \<not> is_fetch ev"
    by auto
  from a have "ts \<noteq> []" by auto
  with a valid name show "handleApiPost net JSON_parse env (Prompt (Some prompt))
          = (Post_response 500 (Error_body Too_many_tables), tr)"
    by (simp add: handleApiPost_def handle_try_def)
  from evs show "\<forall>ev\<in>set tr. is_fetch ev \<longrightarrow> (\<exists>key. ev = Fetch (Generate key prompt))"
    by blast
qed

theorem C9_validation_rejects_before_calls_witness:
  "handleApiPost (\<lambda>n r. text_reply eleven_text) [eleven_text \<mapsto> Truthy eleven_value] test_env
       (Prompt (Some (ascii ''   '')))
     = (Post_response 500 (Error_body Prompt_required), [])
   \<and> handleApiPost (\<lambda>n r. text_reply eleven_text) [eleven_text \<mapsto> Truthy eleven_value] test_env
       (Prompt (Some (replicate 2001 97)))
     = (Post_response 500 (Error_body Prompt_too_long), [])
   \<and> handleApiPost (\<lambda>n r. text_reply eleven_text) [eleven_text \<mapsto> Truthy eleven_value] test_env
       (Prompt (Some (ascii ''crm'')))
     = (Post_response 500 (Error_body Too_many_tables),
        [Fetch (Generate (ascii ''k'') (ascii ''crm''))])"
proof -
  let ?net = "\<lambda>n r. text_reply eleven_text"
  let ?parse = "[eleven_text \<mapsto> Truthy eleven_value]"
  have t: "eleven_text \<noteq> []" by (simp add: eleven_text_def)
  have v: "validate eleven_value = Inr eleven_value"
    by (simp add: validate_def eleven_value_def)
  have g: "generateSchemaFromAI ?net ?parse (ascii ''crm'') (GEMINI_API_KEY test_env) []
             = (Return eleven_value, [Fetch (Generate (ascii ''k'') (ascii ''crm''))])"
    by (simp add: generateSchemaFromAI_def test_env_def generate_attempts.simps generate_try_def
        text_reply_def ok_def parse_text_direct t v fetch_def sent_def)
  have sp: "\<forall>c\<in>set (ascii ''   ''). is_space c" by (simp add: is_space_def)
  have nsp: "\<not> (\<forall>c\<in>set (ascii ''crm''). is_space c)" by (simp add: is_space_def)
  have a: "\<not> (\<forall>c\<in>set (replicate 2001 (97::nat)). is_space c)" by (simp add: is_space_def)
  have ts: "tables eleven_value
              = Some (replicate 11 (Some \<lparr>table_name = ascii ''T'', table_fields = Some [],
                                         sampleDataCount = 0\<rparr>))"
    by (simp add: eleven_value_def)
  show ?thesis
    using sp nsp a g ts
      C9_validation_rejects_before_calls [of "ascii ''   ''" ?net ?parse test_env]
      C9_validation_rejects_before_calls [of "replicate 2001 97" ?net ?parse test_env]
      C9_validation_rejects_before_calls [of "ascii ''crm''" ?net ?parse test_env eleven_value
        "[Fetch (Generate (ascii ''k'') (ascii ''crm''))]"
        "replicate 11 (Some \<lparr>table_name = ascii ''T'', table_fields = Some [],
                              sampleDataCount = 0\<rparr>)"]
    by simp
qed

section \<open>Properties of the provisioning loop\<close>

text \<open>The outcome recorded for one table.\<close>

lemma provision_table_name:
  "tableName (fst (provision_table net token newAppToken t tr)) = table_name t"
  by (simp add: provision_table_def failed_def
      split: prod.splits outcome.splits option.splits)

lemma provision_table_status:
  "status (fst (provision_table net token newAppToken t tr))
     = (if (\<exists>reply d. fst (apiCall net (Create_table token newAppToken (table_name t)) 3 tr)
                         = Return (Some reply) \<and> data reply = Some d)
           \<and> table_fields t \<noteq> None
        then ascii ''Success'' else ascii ''Failed'')"
  by (auto simp add: provision_table_def failed_def
      split: prod.splits outcome.splits option.splits)

text \<open>The loop over the tables, in two parts; what it returns when it returns.\<close>

lemma provision_tables_append:
  "provision_tables net token newAppToken (xs @ ys) results tr
     = (case provision_tables net token newAppToken xs results tr of
          (Return rs, tr1) \<Rightarrow> provision_tables net token newAppToken ys rs tr1
        | (Throw e, tr1) \<Rightarrow> (Throw e, tr1))"
proof (induction xs arbitrary: results tr)
  case Nil
  show ?case by simp
next
  case (Cons x xs)
  show ?case
  proof (cases x)
    case None
    then show ?thesis by simp
  next
    case (Some t)
    then show ?thesis by (simp add: Cons split: prod.splits)
  qed
qed

lemma provision_tables_Return:
  assumes "provision_tables net token newAppToken ts results tr = (Return rs, tr')"
  shows "\<exists>objects new.
           ts = map Some objects \<and> rs = results @ new
           \<and> map tableName new = map table_name objects
           \<and> (\<forall>r\<in>set new. status r = ascii ''Success'' \<or> status r = ascii ''Failed'')"
  using assms
proof (induction ts arbitrary: results tr)
  case Nil
  then show ?case by simp
next
  case (Cons x xs)
  show ?case
  proof (cases x)
    case None
    with Cons.prems show ?thesis by simp
  next
    case (Some t)
    obtain r tr1 where step: "provision_table net token newAppToken t tr = (r, tr1)"
      by (cases "provision_table net token newAppToken t tr")
    with Some Cons.prems have
      "provision_tables net token newAppToken xs (results @ [r]) tr1 = (Return rs, tr')"
      by simp
    from Cons.IH [OF this] obtain objects new where
      rest: "xs = map Some objects" "rs = (results @ [r]) @ new"
        "map tableName new = map table_name objects"
        "\<forall>r\<in>set new. status r = ascii ''Success'' \<or> status r = ascii ''Failed''"
      by blast
    have name: "tableName r = table_name t"
      using provision_table_name [of net token newAppToken t tr] step by simp
    have st: "status r = ascii ''Success'' \<or> status r = ascii ''Failed''"
      using provision_table_status [of net token newAppToken t tr] step
      by (simp split: if_splits)
    from Some rest name st show ?thesis
      by (intro exI [of _ "t # objects"] exI [of _ "r # new"]) simp
  qed
qed

text \<open>Tables that are objects are all processed: the loop returns, with one result each.\<close>

lemma provision_tables_objects:
  "\<exists>new tr'. provision_tables net token newAppToken (map Some objects) results tr
                 = (Return (results @ new), tr')
              \<and> length new = length objects"
proof (induction objects arbitrary: results tr)
  case Nil
  show ?case by simp
next
  case (Cons t objects)
  obtain r tr1 where step: "provision_table net token newAppToken t tr = (r, tr1)"
    by (cases "provision_table net token newAppToken t tr")
  from Cons [of "results @ [r]" tr1] obtain new tr' where
    "provision_tables net token newAppToken (map Some objects) (results @ [r]) tr1
       = (Return ((results @ [r]) @ new), tr')" "length new = length objects"
    by blast
  with step show ?case
    by (intro exI [of _ "r # new"] exI [of _ tr']) simp
qed

text \<open>
  For a table that is an object, at any position among tables that are objects, and
  whatever happened to the tables before it: its outcome is \<open>Success\<close> exactly when its
  table-creation call returned a reply with a \<open>data\<close> member and its \<open>fields\<close> can be
  iterated. Neither the field creations nor the record insertions enter this condition.
\<close>

lemma provision_tables_isolated:
  assumes "provision_tables net token newAppToken (map Some before) [] tr = (Return rs0, tr0)"
  shows "\<exists>rs tr'.
           provision_tables net token newAppToken (map Some (before @ t # after)) [] tr
             = (Return rs, tr')
           \<and> length rs = length (before @ t # after)
           \<and> tableName (rs ! length before) = table_name t
           \<and> status (rs ! length before)
               = (if (\<exists>reply d.
                        fst (apiCall net (Create_table token newAppToken (table_name t)) 3 tr0)
                          = Return (Some reply) \<and> data reply = Some d)
                     \<and> table_fields t \<noteq> None
                  then ascii ''Success'' else ascii ''Failed'')"
proof -
  from provision_tables_Return [OF assms] have len0: "length rs0 = length before"
    by (metis append_Nil length_map)
  obtain r tr1 where step: "provision_table net token newAppToken t tr0 = (r, tr1)"
    by (cases "provision_table net token newAppToken t tr0")
  from provision_tables_objects [of net token newAppToken after "rs0 @ [r]" tr1]
  obtain new tr' where
    rest: "provision_tables net token newAppToken (map Some after) (rs0 @ [r]) tr1
             = (Return ((rs0 @ [r]) @ new), tr')" "length new = length after"
    by blast
  have run: "provision_tables net token newAppToken (map Some (before @ t # after)) [] tr
               = (Return ((rs0 @ [r]) @ new), tr')"
    using assms step rest by (simp add: provision_tables_append)
  have nth: "((rs0 @ [r]) @ new) ! length before = r"
    using len0 by (simp add: nth_append)
  have name: "tableName r = table_name t"
    using provision_table_name [of net token newAppToken t tr0] step by simp
  have st: "status r
               = (if (\<exists>reply d.
                        fst (apiCall net (Create_table token newAppToken (table_name t)) 3 tr0)
                          = Return (Some reply) \<and> data reply = Some d)
                     \<and> table_fields t \<noteq> None
                  then ascii ''Success'' else ascii ''Failed'')"
    using provision_table_status [of net token newAppToken t tr0] step by simp
  from run nth name st len0 rest(2) show ?thesis
    by (intro exI [of _ "(rs0 @ [r]) @ new"] exI [of _ tr']) simp
qed

text \<open>
  After an element that is \<open>null\<close> no table is processed, and the outcomes recorded before
  it are not returned.
\<close>

lemma provision_tables_null:
  assumes "provision_tables net token newAppToken (map Some before) [] tr = (Return rs0, tr0)"
  shows "provision_tables net token newAppToken (map Some before @ None # after) [] tr
           = (Throw Type_error, tr0)"
  using assms by (simp add: provision_tables_append)

text \<open>The equations that evaluate a run against the concrete workspace.\<close>

lemmas run_simps =
  provision_table_def apiCall_def apiCall_attempts.simps apiCall_try_def fetch_def sent_def
  sleep_def ok_def getFieldProperty_def typeMap_def lower_unit_def workspace_def
  fields_of_T2_def table_T2_def demo_table_def text_field_def success_reply_def
  addSampleRecords_def build_records_def recordFields_def assign_def generateDummyData_def
  insert_batches.simps digits.simps failed_def upt_conv_Cons

text \<open>
  C4. The claim: one table's failure never aborts the others, and a table whose
  table-creation call succeeded is recorded as \<open>Success\<close>, \<open>Failed\<close> only when table
  creation itself failed. The source at a schema of three tables whose second table has
  no \<open>fields\<close> member, against a workspace that answers every call with success: the
  table-creation call of the second table is answered with its table id, and after the
  pause the loop over \<open>table.fields\<close> throws outside the \<open>try\<close> of the single field, so
  that the table is recorded as \<open>Failed\<close>. The other two tables are recorded as \<open>Success\<close>.
\<close>

theorem C4_table_without_fields_is_failed:
  "handleApiPost gap_workspace [gap_text \<mapsto> Truthy gap_value] test_env
       (Prompt (Some (ascii ''crm'')))
     = (Post_response 200
          (Success_body
             \<lparr>created_baseName = ascii ''B'', baseUrl = Some (ascii ''https://base/app''),
              created_summary = \<lparr>totalTables = 3, successfulTables = 2, failedTables = 1\<rparr>,
              details =
                [\<lparr>tableName = ascii ''T1'', status = ascii ''Success'',
                  tableId = Some (ascii ''T1''), fieldsCreated = Some 1, recordsAdded = Some 2,
                  error = None\<rparr>,
                 \<lparr>tableName = ascii ''T2'', status = ascii ''Failed'', tableId = None,
                  fieldsCreated = None, recordsAdded = None, error = Some Type_error\<rparr>,
                 \<lparr>tableName = ascii ''T3'', status = ascii ''Success'',
                  tableId = Some (ascii ''T3''), fieldsCreated = Some 1, recordsAdded = Some 0,
                  error = None\<rparr>]\<rparr>),
        [Fetch (Generate (ascii ''k'') (ascii ''crm'')),
         Fetch (Tenant_token (ascii ''id'') (ascii ''secret'')),
         Fetch (Create_base (Some (ascii ''t'')) (ascii ''B'')),
         Fetch (Create_table (Some (ascii ''t'')) (Some (ascii ''app'')) (ascii ''T1'')),
         Sleep 500,
         Fetch (Create_field (Some (ascii ''t'')) (Some (ascii ''app'')) (Some (ascii ''T1''))
                  (ascii ''name'') (Some 1) None),
         Sleep 300,
         Fetch (Batch_create (Some (ascii ''t'')) (Some (ascii ''app'')) (Some (ascii ''T1''))
                  [[ascii ''name'' \<mapsto> DStr (sample_label @ ascii ''1'')],
                   [ascii ''name'' \<mapsto> DStr (sample_label @ ascii ''2'')]]),
         Fetch (Create_table (Some (ascii ''t'')) (Some (ascii ''app'')) (ascii ''T2'')),
         Sleep 500,
         Fetch (Create_table (Some (ascii ''t'')) (Some (ascii ''app'')) (ascii ''T3'')),
         Sleep 500,
         Fetch (Create_field (Some (ascii ''t'')) (Some (ascii ''app'')) (Some (ascii ''T3''))
                  (ascii ''name'') (Some 1) None),
         Sleep 300])
   \<and> apiCall gap_workspace
         (Create_table (Some (ascii ''t'')) (Some (ascii ''app'')) (ascii ''T2'')) 3 []
     = (Return (Some (success_reply
                        \<lparr>data := Some \<lparr>app = None, table_id = Some (ascii ''T2''),
                                         data_records = None\<rparr>\<rparr>)),
        [Fetch (Create_table (Some (ascii ''t'')) (Some (ascii ''app'')) (ascii ''T2''))])"
proof -
  have t: "gap_text \<noteq> []" by (simp add: gap_text_def)
  have p: "parse_text [gap_text \<mapsto> Truthy gap_value] gap_text = Inr gap_value"
    by (simp add: parse_text_direct)
  have v: "validate gap_value = Inr gap_value"
    by (simp add: validate_def gap_value_def gap_tables_def)
  have g: "generateSchemaFromAI gap_workspace [gap_text \<mapsto> Truthy gap_value]
             (ascii ''crm'') (GEMINI_API_KEY test_env) []
           = (Return gap_value, [Fetch (Generate (ascii ''k'') (ascii ''crm''))])"
    by (simp add: generateSchemaFromAI_def test_env_def generate_attempts.simps generate_try_def
        text_reply_def ok_def t p v fetch_def sent_def gap_workspace_def)
  show ?thesis
    using g
    by (simp add: handleApiPost_def handle_try_def trim_def is_space_def gap_value_def
        gap_tables_def gap_workspace_def provision_def getTenantAccessToken_def createBaseApp_def
        test_env_def fetches_def run_simps split: prod.splits)
qed

section \<open>Properties of the success response\<close>

text \<open>What a success response was computed from.\<close>

lemma provision_Return:
  assumes "provision net env name ts tr = (Return b, tr')"
  shows "\<exists>token appToken tr2.
           provision_tables net token appToken ts [] tr2 = (Return (details b), tr')
           \<and> created_summary b
               = \<lparr>totalTables = length ts,
                  successfulTables = length (filter (\<lambda>r. status r = ascii ''Success'') (details b)),
                  failedTables = length (filter (\<lambda>r. status r = ascii ''Failed'') (details b))\<rparr>"
  using assms
  by (auto simp add: provision_def split: prod.splits outcome.splits option.splits) blast

lemma handle_try_Return:
  assumes "handle_try net JSON_parse env request = (Return b, tr)"
  shows "\<exists>prompt ai name ts tr0.
           request = Prompt (Some prompt)
           \<and> generateSchemaFromAI net JSON_parse prompt (GEMINI_API_KEY env) [] = (Return ai, tr0)
           \<and> baseName ai = Some name \<and> tables ai = Some ts
           \<and> provision net env name ts tr0 = (Return b, tr)"
  using assms
  by (auto simp add: handle_try_def
      split: post_request.splits option.splits if_splits prod.splits outcome.splits)

lemma two_statuses_count:
  assumes "\<forall>r\<in>set rs. status r = ascii ''Success'' \<or> status r = ascii ''Failed''"
  shows "length (filter (\<lambda>r. status r = ascii ''Success'') rs)
           + length (filter (\<lambda>r. status r = ascii ''Failed'') rs) = length rs"
  using assms by (induction rs) auto

text \<open>
  C10. When \<open>handleApiPost\<close> answers with a success body, the request carried a prompt
  for which \<open>generateSchemaFromAI\<close> returned a schema whose tables are all objects, and with
  \<open>ts\<close> the tables of that schema: \<open>details\<close> has one entry per table, named after the
  tables in order, every status is \<open>Success\<close> or \<open>Failed\<close>, \<open>totalTables\<close> is the number of
  tables, and \<open>successfulTables + failedTables = totalTables\<close>.
\<close>

theorem C10_details_and_summary:
  "handleApiPost net JSON_parse env request = (Post_response st (Success_body b), tr) \<longrightarrow>
     (\<exists>prompt ai ts tr0.
        request = Prompt (Some prompt)
        \<and> generateSchemaFromAI net JSON_parse prompt (GEMINI_API_KEY env) [] = (Return ai, tr0)
        \<and> tables ai = Some (map Some ts)
        \<and> length (details b) = length ts
        \<and> map tableName (details b) = map table_name ts
        \<and> (\<forall>r\<in>set (details b). status r = ascii ''Success'' \<or> status r = ascii ''Failed'')
        \<and> totalTables (created_summary b) = length ts
        \<and> successfulTables (created_summary b) + failedTables (created_summary b)
            = totalTables (created_summary b))"
proof
  assume "handleApiPost net JSON_parse env request = (Post_response st (Success_body b), tr)"
  then have "handle_try net JSON_parse env request = (Return b, tr)"
    by (auto simp add: handleApiPost_def split: prod.splits outcome.splits)
  from handle_try_Return [OF this] obtain prompt ai name tabs tr0 where
    req: "request = Prompt (Some prompt)"
    and gen: "generateSchemaFromAI net JSON_parse prompt (GEMINI_API_KEY env) [] = (Return ai, tr0)"
    and tabs: "tables ai = Some tabs"
    and prov: "provision net env name tabs tr0 = (Return b, tr)"
    by blast
  from provision_Return [OF prov] obtain token appToken tr2 where
    loop: "provision_tables net token appToken tabs [] tr2 = (Return (details b), tr)"
    and summ: "created_summary b
               = \<lparr>totalTables = length tabs,
                  successfulTables = length (filter (\<lambda>r. status r = ascii ''Success'') (details b)),
                  failedTables = length (filter (\<lambda>r. status r = ascii ''Failed'') (details b))\<rparr>"
    by blast
  from provision_tables_Return [OF loop] obtain ts where
    ts: "tabs = map Some ts"
    and names: "map tableName (details b) = map table_name ts"
    and sts: "\<forall>r\<in>set (details b). status r = ascii ''Success'' \<or> status r = ascii ''Failed''"
    by auto
  from names have len: "length (details b) = length ts"
    by (metis length_map)
  have total: "totalTables (created_summary b) = length ts"
    by (simp add: summ ts)
  have "successfulTables (created_summary b) + failedTables (created_summary b)
          = length (details b)"
    using two_statuses_count [OF sts] by (simp add: summ)
  with len total have sum: "successfulTables (created_summary b) + failedTables (created_summary b)
            = totalTables (created_summary b)"
    by simp
  from tabs ts have tabs': "tables ai = Some (map Some ts)" by simp
  from req gen tabs' len names sts total sum show "\<exists>prompt ai ts tr0.
        request = Prompt (Some prompt)
        \<and> generateSchemaFromAI net JSON_parse prompt (GEMINI_API_KEY env) [] = (Return ai, tr0)
        \<and> tables ai = Some (map Some ts)
        \<and> length (details b) = length ts
        \<and> map tableName (details b) = map table_name ts
        \<and> (\<forall>r\<in>set (details b). status r = ascii ''Success'' \<or> status r = ascii ''Failed'')
        \<and> totalTables (created_summary b) = length ts
        \<and> successfulTables (created_summary b) + failedTables (created_summary b)
            = totalTables (created_summary b)"
    by blast
qed

theorem C10_details_and_summary_witness:
  "fst (handleApiPost (workspace table_T2) [three_text \<mapsto> Truthy three_value] test_env
          (Prompt (Some (ascii ''crm''))))
     = Post_response 200
         (Success_body
            \<lparr>created_baseName = ascii ''B'', baseUrl = Some (ascii ''https://base/app''),
             created_summary = \<lparr>totalTables = 3, successfulTables = 2, failedTables = 1\<rparr>,
             details =
               [\<lparr>tableName = ascii ''T1'', status = ascii ''Success'',
                 tableId = Some (ascii ''T1''), fieldsCreated = Some 1, recordsAdded = Some 2,
                 error = None\<rparr>,
                \<lparr>tableName = ascii ''T2'', status = ascii ''Failed'', tableId = None,
                 fieldsCreated = None, recordsAdded = None, error = Some (Http_error 500)\<rparr>,
                \<lparr>tableName = ascii ''T3'', status = ascii ''Success'',
                 tableId = Some (ascii ''T3''), fieldsCreated = Some 1, recordsAdded = Some 0,
                 error = None\<rparr>]\<rparr>)
   \<and> tables three_value = Some (map Some three_tables) \<and> length three_tables = 3"
proof -
  let ?run = "handleApiPost (workspace table_T2) [three_text \<mapsto> Truthy three_value] test_env
                (Prompt (Some (ascii ''crm'')))"
  let ?b = "\<lparr>created_baseName = ascii ''B'', baseUrl = Some (ascii ''https://base/app''),
             created_summary = \<lparr>totalTables = 3, successfulTables = 2, failedTables = 1\<rparr>,
             details =
               [\<lparr>tableName = ascii ''T1'', status = ascii ''Success'',
                 tableId = Some (ascii ''T1''), fieldsCreated = Some 1, recordsAdded = Some 2,
                 error = None\<rparr>,
                \<lparr>tableName = ascii ''T2'', status = ascii ''Failed'', tableId = None,
                 fieldsCreated = None, recordsAdded = None, error = Some (Http_error 500)\<rparr>,
                \<lparr>tableName = ascii ''T3'', status = ascii ''Success'',
                 tableId = Some (ascii ''T3''), fieldsCreated = Some 1, recordsAdded = Some 0,
                 error = None\<rparr>]\<rparr>"
  have t: "three_text \<noteq> []" by (simp add: three_text_def)
  have p: "parse_text [three_text \<mapsto> Truthy three_value] three_text = Inr three_value"
    by (simp add: parse_text_direct)
  have v: "validate three_value = Inr three_value"
    by (simp add: validate_def three_value_def three_tables_def)
  have g: "generateSchemaFromAI (workspace table_T2) [three_text \<mapsto> Truthy three_value]
             (ascii ''crm'') (GEMINI_API_KEY test_env) []
           = (Return three_value, [Fetch (Generate (ascii ''k'') (ascii ''crm''))])"
    by (simp add: generateSchemaFromAI_def test_env_def generate_attempts.simps generate_try_def
        text_reply_def ok_def t p v fetch_def sent_def workspace_def table_T2_def)
  have e: "fst ?run = Post_response 200 (Success_body ?b)"
    using g
    by (simp add: handleApiPost_def handle_try_def trim_def is_space_def three_value_def
        three_tables_def provision_def getTenantAccessToken_def createBaseApp_def
        test_env_def fetches_def run_simps split: prod.splits)
  then have "?run = (Post_response 200 (Success_body ?b), snd ?run)"
    by (metis prod.collapse)
  from C10_details_and_summary [of "workspace table_T2" "[three_text \<mapsto> Truthy three_value]"
      test_env "Prompt (Some (ascii ''crm''))" 200 ?b "snd ?run"] this e
  show ?thesis
    by (simp add: three_value_def three_tables_def)
qed

end
